theory Spec2Isabelle
  imports Complex_Main "HOL-Library.Char_ord" "HOL-Library.List_Lexorder" "HOL-Library.Multiset"
begin

section \<open>Python values\<close>

text \<open>
  A Python float is modelled by the real number it denotes, or by \<open>NaN\<close>: pandas and
  numpy use NaN for a missing numeric value. Every comparison with NaN is false.
  Arithmetic is exact. Python integers are \<open>int\<close>, strings are \<open>string\<close>.
\<close>

datatype pyfloat = Num real | NaN

text \<open>
  A decimal literal of the source denotes a binary64 number as well. The literal \<open>0.1\<close>,
  which the program compares with the score of the forest (\<open>anomaly_score < -0.1\<close>,
  \<open>anomaly_score > 0.1\<close>), denotes \<open>3602879701896397 / 2^55\<close>, a little more than one
  tenth, and a score can be exactly this number: the two comparisons are modelled with
  it. The other literals are read as the decimal fractions they write: \<open>0.7\<close> denotes
  the binary64 number next below seven tenths, so that \<open>x > 0.7\<close> has the same answer for
  every binary64 \<open>x\<close> under both readings, and the remaining ones are only passed on to
  the libraries.
\<close>

definition float64_0_1 :: real where
  "float64_0_1 = 3602879701896397 / 2 ^ 55"

definition pf_gt :: "pyfloat \<Rightarrow> real \<Rightarrow> bool" where
  "pf_gt x c = (case x of Num v \<Rightarrow> v > c | NaN \<Rightarrow> False)"

text \<open>
  The exceptions of the program as values. The program raises Python's \<open>ValueError\<close>
  in three places that the specification tells apart by name:
  \<^item> \<open>NotTrainedError\<close>: \<open>ValueError("Model must be trained before making predictions")\<close>
    in \<open>predict\<close>;
  \<^item> \<open>UnknownCategoryError\<close>: the \<open>ValueError\<close> of \<open>LabelEncoder.transform\<close> on a label
    that is not among its classes;
  \<^item> \<open>ConfigurationError col\<close>: \<open>ValueError("Feature column 'col' not found in data")\<close>
    in \<open>preprocess_features\<close>.
  \<open>KeyError\<close> is a missing DataFrame column, \<open>NotFittedError\<close> is scikit-learn's error of
  an estimator used before its fit, \<open>AttributeError\<close> is a method call on \<open>None\<close>,
  \<open>IndexError\<close> is \<open>[0]\<close> on an empty array, and \<open>LibraryError\<close> is any exception that a
  scikit-learn call on the feature matrix raises.
\<close>

datatype error =
    NotTrainedError
  | UnknownCategoryError
  | ConfigurationError string
  | KeyError string
  | NotFittedError
  | AttributeError
  | IndexError
  | LibraryError

subsection \<open>Text of numbers\<close>

definition digit_char :: "nat \<Rightarrow> char" where
  "digit_char d = ''0123456789'' ! (d mod 10)"

fun str_nat :: "nat \<Rightarrow> string" where
  "str_nat n = (if n < 10 then [digit_char n] else str_nat (n div 10) @ [digit_char (n mod 10)])"

declare str_nat.simps [simp del]

text \<open>\<open>str(i)\<close> of a Python integer.\<close>

definition str_int :: "int \<Rightarrow> string" where
  "str_int i = (if i < 0 then ''-'' @ str_nat (nat (- i)) else str_nat (nat i))"

text \<open>\<open>s.zfill(w)\<close> for a string of digits.\<close>

definition zfill :: "nat \<Rightarrow> string \<Rightarrow> string" where
  "zfill w s = replicate (w - length s) (CHR ''0'') @ s"

text \<open>The thousands separator of the format specification \<open>,\<close>.\<close>

function group3 :: "string \<Rightarrow> string" where
  "group3 s = (if length s \<le> 3 then s
               else group3 (take (length s - 3) s) @ '','' @ drop (length s - 3) s)"
  by pat_completeness auto
termination
  by (relation "measure length") auto

declare group3.simps [simp del]

text \<open>Rounding to the nearest integer, ties to the even one.\<close>

definition rint :: "real \<Rightarrow> int" where
  "rint x = (let f = \<lfloor>x\<rfloor>; d = x - of_int f in
     if d < 1 / 2 then f else if d > 1 / 2 then f + 1 else if even f then f else f + 1)"

text \<open>
  The fixed-point format \<open>format(x, '.<nd>f')\<close>, with the thousands separator when
  \<open>grouped\<close>: the value is rounded to \<open>nd\<close> decimals, ties to even.
\<close>

definition format_f :: "bool \<Rightarrow> nat \<Rightarrow> pyfloat \<Rightarrow> string" where
  "format_f grouped nd x =
     (case x of
        NaN \<Rightarrow> ''nan''
      | Num v \<Rightarrow>
          (let scaled = nat (rint (\<bar>v\<bar> * 10 ^ nd));
               ip = str_nat (scaled div 10 ^ nd);
               fp = zfill nd (str_nat (scaled mod 10 ^ nd))
           in (if v < 0 then ''-'' else '''') @ (if grouped then group3 ip else ip) @ ''.'' @ fp))"

text \<open>\<open>sep.join(xs)\<close>.\<close>

fun py_join :: "string \<Rightarrow> string list \<Rightarrow> string" where
  "py_join sep [] = []"
| "py_join sep [x] = x"
| "py_join sep (x # y # ys) = x @ sep @ py_join sep (y # ys)"

section \<open>Transactions\<close>

text \<open>
  A transaction is a Python dict with the keys below (\<open>data_generator.py\<close>, the request
  schema \<open>TransactionRequest\<close> of \<open>main.py\<close>). A field is \<open>None\<close> when the dict has no
  such key. The three real-valued fields are floats, the three counts are integers.
\<close>

record transaction =
  transaction_id :: "string option"
  amount :: "pyfloat option"
  transaction_type :: "string option"
  account_age_days :: "int option"
  location_risk_score :: "pyfloat option"
  device_risk_score :: "pyfloat option"
  transaction_hour :: "int option"
  past_transactions_24h :: "int option"
  is_anomaly :: "int option"

text \<open>\<open>d.get(key, default)\<close>: never raises.\<close>

definition dict_get :: "'a option \<Rightarrow> 'a \<Rightarrow> 'a" where
  "dict_get field dflt = (case field of None \<Rightarrow> dflt | Some v \<Rightarrow> v)"

section \<open>The explanation of a prediction\<close>

text \<open>
  \<open>FraudDetectionModel._generate_explanation\<close> (\<open>model.py\<close>). The list \<open>explanations\<close>
  grows by one \<open>append\<close> after the other, as in the source.
\<close>

definition generate_explanation :: "transaction \<Rightarrow> real \<Rightarrow> string \<Rightarrow> string" where
  "generate_explanation transaction_data anomaly_score prediction_label =
     (let explanations = [] in
      if prediction_label = ''FRAUD'' then
        (let explanations = explanations @ [''Transaction flagged as potentially fraudulent''];
             amount' = dict_get (amount transaction_data) (Num 0);
             explanations =
               (if pf_gt amount' 10000
                then explanations @ [''High transaction amount: $'' @ format_f True 2 amount']
                else explanations);
             location_risk = dict_get (location_risk_score transaction_data) (Num 0);
             explanations =
               (if pf_gt location_risk 0.7
                then explanations @ [''High location risk score: '' @ format_f False 3 location_risk]
                else explanations);
             device_risk = dict_get (device_risk_score transaction_data) (Num 0);
             explanations =
               (if pf_gt device_risk 0.7
                then explanations @ [''High device risk score: '' @ format_f False 3 device_risk]
                else explanations);
             hour = dict_get (transaction_hour transaction_data) 0;
             explanations =
               (if hour < 6 \<or> hour > 22
                then explanations @ [''Unusual transaction time: '' @ str_int hour @ '':00'']
                else explanations);
             past_tx = dict_get (past_transactions_24h transaction_data) 0;
             explanations =
               (if past_tx > 20
                then explanations @ [''High activity: '' @ str_int past_tx @ '' transactions in 24h'']
                else explanations);
             account_age = dict_get (account_age_days transaction_data) 0;
             explanations =
               (if account_age < 30
                then explanations @ [''New account: '' @ str_int account_age @ '' days old'']
                else explanations)
         in py_join '' | '' explanations)
      else
        (let explanations = explanations @ [''Transaction appears normal''];
             explanations =
               (if anomaly_score > float64_0_1
                then explanations @ [''Low risk profile detected'']
                else explanations)
         in py_join '' | '' explanations))"

section \<open>The feature pipeline\<close>

text \<open>
  A DataFrame built from a list of dicts (\<open>pd.DataFrame(rows)\<close>) is the list of its rows.
  A column exists when some row has the key; a row without the key holds NaN there.
  Integer columns are read as floats, as pandas and numpy do.
\<close>

type_synonym dataframe = "transaction list"

definition of_int_cell :: "int option \<Rightarrow> pyfloat option" where
  "of_int_cell = map_option (\<lambda>i. Num (of_int i))"

definition numeric_field :: "string \<Rightarrow> transaction \<Rightarrow> pyfloat option" where
  "numeric_field name r =
     (if name = ''amount'' then amount r
      else if name = ''account_age_days'' then of_int_cell (account_age_days r)
      else if name = ''location_risk_score'' then location_risk_score r
      else if name = ''device_risk_score'' then device_risk_score r
      else if name = ''transaction_hour'' then of_int_cell (transaction_hour r)
      else if name = ''past_transactions_24h'' then of_int_cell (past_transactions_24h r)
      else if name = ''is_anomaly'' then of_int_cell (is_anomaly r)
      else None)"

text \<open>
  A cell of the column \<open>transaction_type\<close>: a string, or \<open>None\<close> for a row without the key.
\<close>

type_synonym category = "string option"

text \<open>\<open>df['transaction_type']\<close>.\<close>

definition getitem_transaction_type :: "dataframe \<Rightarrow> error + category list" where
  "getitem_transaction_type df =
     (if list_ex (\<lambda>r. transaction_type r \<noteq> None) df
      then Inr (map transaction_type df)
      else Inl (KeyError ''transaction_type''))"

text \<open>
  \<open>df_processed\<close>: the copy of the frame with the added column
  \<open>transaction_type_encoded\<close>.
\<close>

record df_processed =
  frame :: dataframe
  transaction_type_encoded :: "nat list"

definition numeric_column :: "df_processed \<Rightarrow> string \<Rightarrow> pyfloat list option" where
  "numeric_column dfp name =
     (if name = ''transaction_type_encoded''
      then Some (map (\<lambda>c. Num (real c)) (transaction_type_encoded dfp))
      else if list_ex (\<lambda>r. numeric_field name r \<noteq> None) (frame dfp)
      then Some (map (\<lambda>r. dict_get (numeric_field name r) NaN) (frame dfp))
      else None)"

subsection \<open>scikit-learn's LabelEncoder\<close>

text \<open>
  \<open>classes\<close> is \<open>None\<close> before the fit. The fit sorts the distinct labels, a missing one
  last; \<open>transform\<close> maps a label to its position and raises on a label that is not a
  class.
\<close>

datatype label_encoder = LabelEncoder (classes: "category list option")

fun index_of :: "'a list \<Rightarrow> 'a \<Rightarrow> nat" where
  "index_of [] x = 0"
| "index_of (y # ys) x = (if x = y then 0 else Suc (index_of ys x))"

definition le_classes :: "category list \<Rightarrow> category list" where
  "le_classes col =
     map Some (sort (remdups (concat (map (\<lambda>c. case c of None \<Rightarrow> [] | Some s \<Rightarrow> [s]) col))))
     @ (if None \<in> set col then [None] else [])"

definition le_fit_transform :: "category list \<Rightarrow> label_encoder \<times> nat list" where
  "le_fit_transform col =
     (let cs = le_classes col in (LabelEncoder (Some cs), map (index_of cs) col))"

definition le_transform :: "label_encoder \<Rightarrow> category list \<Rightarrow> error + nat list" where
  "le_transform le col =
     (case classes le of
        None \<Rightarrow> Inl NotFittedError
      | Some cs \<Rightarrow>
          if list_all (\<lambda>c. c \<in> set cs) col then Inr (map (index_of cs) col)
          else Inl UnknownCategoryError)"

subsection \<open>Selecting and filling the features\<close>

definition feature_columns_list :: "string list" where
  "feature_columns_list =
     [''amount'', ''transaction_type_encoded'', ''account_age_days'', ''location_risk_score'',
      ''device_risk_score'', ''transaction_hour'', ''past_transactions_24h'']"

text \<open>The loop \<open>for col in feature_columns: if col not in df_processed.columns: raise\<close>.\<close>

fun check_columns :: "df_processed \<Rightarrow> string list \<Rightarrow> error + unit" where
  "check_columns dfp [] = Inr ()"
| "check_columns dfp (col # cols) =
     (if numeric_column dfp col = None then Inl (ConfigurationError col)
      else check_columns dfp cols)"

text \<open>\<open>df_processed[feature_columns]\<close>: the named columns, in the order of the names.\<close>

type_synonym feature_frame = "(string \<times> pyfloat list) list"

fun select_columns :: "df_processed \<Rightarrow> string list \<Rightarrow> error + feature_frame" where
  "select_columns dfp [] = Inr []"
| "select_columns dfp (col # cols) =
     (case numeric_column dfp col of
        None \<Rightarrow> Inl (KeyError col)
      | Some v \<Rightarrow>
          (case select_columns dfp cols of
             Inl e \<Rightarrow> Inl e
           | Inr rest \<Rightarrow> Inr ((col, v) # rest)))"

text \<open>
  \<open>Series.mean()\<close> skips NaN and is NaN when nothing is left; \<open>fillna\<close> with a NaN fill
  value leaves the cell NaN.
\<close>

definition present_values :: "pyfloat list \<Rightarrow> real list" where
  "present_values col = concat (map (\<lambda>c. case c of NaN \<Rightarrow> [] | Num x \<Rightarrow> [x]) col)"

definition series_mean :: "pyfloat list \<Rightarrow> pyfloat" where
  "series_mean col =
     (let xs = present_values col in
      if xs = [] then NaN else Num (sum_list xs / real (length xs)))"

definition fillna_col :: "pyfloat list \<Rightarrow> pyfloat \<Rightarrow> pyfloat list" where
  "fillna_col col v = map (\<lambda>c. case c of NaN \<Rightarrow> v | Num x \<Rightarrow> Num x) col"

text \<open>\<open>X.fillna(X.mean())\<close>: each column is filled with its own mean in \<open>X\<close>.\<close>

definition fillna_mean :: "feature_frame \<Rightarrow> feature_frame" where
  "fillna_mean X = map (\<lambda>(name, col). (name, fillna_col col (series_mean col))) X"

definition select_features :: "df_processed \<Rightarrow> error + feature_frame \<times> string list" where
  "select_features dfp =
     (let feature_columns = feature_columns_list in
      case check_columns dfp feature_columns of
        Inl e \<Rightarrow> Inl e
      | Inr _ \<Rightarrow>
          (case select_columns dfp feature_columns of
             Inl e \<Rightarrow> Inl e
           | Inr X \<Rightarrow> Inr (fillna_mean X, feature_columns)))"

subsection \<open>scikit-learn's StandardScaler\<close>

text \<open>
  The fit keeps, per column, the mean and the standard deviation (of the population) of
  the values that are not NaN; a standard deviation of zero is replaced by one.
  \<open>transform\<close> maps \<open>x\<close> to \<open>(x - mean) / scale\<close>, keeps NaN, returns the rows of the
  matrix, and raises when the number of columns is not the fitted one.
\<close>

record standard_scaler =
  scaler_mean :: "pyfloat list"
  scaler_scale :: "pyfloat list"

definition series_std :: "pyfloat list \<Rightarrow> pyfloat" where
  "series_std col =
     (let xs = present_values col in
      if xs = [] then NaN
      else (let m = sum_list xs / real (length xs)
            in Num (sqrt (sum_list (map (\<lambda>x. (x - m)\<^sup>2) xs) / real (length xs)))))"

definition handle_zeros_in_scale :: "pyfloat \<Rightarrow> pyfloat" where
  "handle_zeros_in_scale s = (case s of NaN \<Rightarrow> NaN | Num v \<Rightarrow> if v = 0 then Num 1 else Num v)"

definition scaler_fit :: "feature_frame \<Rightarrow> standard_scaler" where
  "scaler_fit X =
     \<lparr>scaler_mean = map (\<lambda>(name, col). series_mean col) X,
      scaler_scale = map (\<lambda>(name, col). handle_zeros_in_scale (series_std col)) X\<rparr>"

definition standardize :: "pyfloat \<Rightarrow> pyfloat \<Rightarrow> pyfloat \<Rightarrow> pyfloat" where
  "standardize m s x =
     (case (x, m, s) of
        (Num a, Num b, Num c) \<Rightarrow> Num ((a - b) / c)
      | _ \<Rightarrow> NaN)"

text \<open>The rows of a matrix that is given by its columns (all of one length).\<close>

definition to_rows :: "pyfloat list list \<Rightarrow> pyfloat list list" where
  "to_rows cols =
     (case cols of
        [] \<Rightarrow> []
      | c # _ \<Rightarrow> map (\<lambda>i. map (\<lambda>col. col ! i) cols) [0..<length c])"

definition scaler_transform :: "standard_scaler \<Rightarrow> feature_frame \<Rightarrow> error + pyfloat list list" where
  "scaler_transform sc X =
     (if length (scaler_mean sc) \<noteq> length X \<or> length (scaler_scale sc) \<noteq> length X then Inl LibraryError
      else Inr (to_rows
             (map (\<lambda>(m, s, name, col). map (standardize m s) col)
                  (zip (scaler_mean sc) (zip (scaler_scale sc) X)))))"

subsection \<open>scikit-learn's IsolationForest\<close>

text \<open>
  The estimator object keeps the parameters of its constructor and, after the fit, the
  fitted forest. How the forest is built and how it scores a matrix is the library's:
  both are parameters of the model, of any type \<open>'f\<close> of forests. \<open>predict\<close> is the
  library's own definition from the decision function: \<open>-1\<close> where it is negative,
  \<open>1\<close> elsewhere.
\<close>

record if_params =
  n_estimators :: nat
  max_samples :: string
  contamination :: real
  random_state :: int
  n_jobs :: int

record 'f isolation_forest =
  params :: if_params
  fitted :: "'f option"

record 'f sklearn =
  forest_fit :: "if_params \<Rightarrow> pyfloat list list \<Rightarrow> error + 'f"
  forest_decision_function :: "'f \<Rightarrow> pyfloat list list \<Rightarrow> error + real list"

definition IsolationForest :: "nat \<Rightarrow> string \<Rightarrow> real \<Rightarrow> int \<Rightarrow> int \<Rightarrow> 'f isolation_forest" where
  "IsolationForest n ms c rs nj =
     \<lparr>params = \<lparr>n_estimators = n, max_samples = ms, contamination = c,
                 random_state = rs, n_jobs = nj\<rparr>,
      fitted = None\<rparr>"

definition if_fit :: "'f sklearn \<Rightarrow> 'f isolation_forest \<Rightarrow> pyfloat list list
    \<Rightarrow> error + 'f isolation_forest" where
  "if_fit sk est X =
     (case forest_fit sk (params est) X of
        Inl e \<Rightarrow> Inl e
      | Inr f \<Rightarrow> Inr (est\<lparr>fitted := Some f\<rparr>))"

definition if_decision_function :: "'f sklearn \<Rightarrow> 'f isolation_forest \<Rightarrow> pyfloat list list
    \<Rightarrow> error + real list" where
  "if_decision_function sk est X =
     (case fitted est of
        None \<Rightarrow> Inl NotFittedError
      | Some f \<Rightarrow> forest_decision_function sk f X)"

definition if_predict :: "'f sklearn \<Rightarrow> 'f isolation_forest \<Rightarrow> pyfloat list list
    \<Rightarrow> error + int list" where
  "if_predict sk est X =
     (case if_decision_function sk est X of
        Inl e \<Rightarrow> Inl e
      | Inr ds \<Rightarrow> Inr (map (\<lambda>d. if d < 0 then - 1 else 1) ds))"

section \<open>FraudDetectionModel\<close>

text \<open>
  The attributes of the object. Every method takes the object and returns it with its
  result, since a method may assign attributes before it raises.
\<close>

record 'f fraud_detection_model =
  model :: "'f isolation_forest option"
  scaler :: "standard_scaler option"
  label_encoder :: "label_encoder option"
  feature_columns :: "string list option"
  is_trained :: bool

text \<open>\<open>__init__\<close>: the model before any training.\<close>

definition init :: "'f fraud_detection_model" where
  "init = \<lparr>model = None, scaler = None, label_encoder = None, feature_columns = None,
           is_trained = False\<rparr>"

definition preprocess_features :: "'f fraud_detection_model \<Rightarrow> dataframe
    \<Rightarrow> (error + feature_frame \<times> string list) \<times> 'f fraud_detection_model" where
  "preprocess_features self df =
     (case label_encoder self of
        None \<Rightarrow>
          (let self = self\<lparr>label_encoder := Some (LabelEncoder None)\<rparr> in
           case getitem_transaction_type df of
             Inl e \<Rightarrow> (Inl e, self)
           | Inr col \<Rightarrow>
               (let (le, codes) = le_fit_transform col;
                    self = self\<lparr>label_encoder := Some le\<rparr>
                in (select_features \<lparr>frame = df, transaction_type_encoded = codes\<rparr>, self)))
      | Some le \<Rightarrow>
          (case getitem_transaction_type df of
             Inl e \<Rightarrow> (Inl e, self)
           | Inr col \<Rightarrow>
               (case le_transform le col of
                  Inl e \<Rightarrow> (Inl e, self)
                | Inr codes \<Rightarrow>
                    (select_features \<lparr>frame = df, transaction_type_encoded = codes\<rparr>, self))))"

definition train :: "'f sklearn \<Rightarrow> 'f fraud_detection_model \<Rightarrow> dataframe
    \<Rightarrow> (error + 'f isolation_forest) \<times> 'f fraud_detection_model" where
  "train sk self df =
     (case preprocess_features self df of
        (Inl e, self) \<Rightarrow> (Inl e, self)
      | (Inr (X, cols), self) \<Rightarrow>
          (let self = self\<lparr>feature_columns := Some cols\<rparr>;
               sc = scaler_fit X;
               self = self\<lparr>scaler := Some sc\<rparr>
           in case scaler_transform sc X of
                Inl e \<Rightarrow> (Inl e, self)
              | Inr X_scaled \<Rightarrow>
                  (let est = IsolationForest 100 ''auto'' 0.04 42 (- 1);
                       self = self\<lparr>model := Some est\<rparr>
                   in case if_fit sk est X_scaled of
                        Inl e \<Rightarrow> (Inl e, self)
                      | Inr est \<Rightarrow>
                          (let self = self\<lparr>model := Some est, is_trained := True\<rparr>
                           in case if_predict sk est X_scaled of
                                Inl e \<Rightarrow> (Inl e, self)
                              | Inr predictions \<Rightarrow>
                                  (case if_decision_function sk est X_scaled of
                                     Inl e \<Rightarrow> (Inl e, self)
                                   | Inr anomaly_scores \<Rightarrow> (Inr est, self))))))"

record prediction_result =
  prediction :: string
  anomaly_score :: real
  risk_level :: string
  explanation :: string

text \<open>
  \<open>predict\<close> on a dict (the request of \<open>main.py\<close>): the frame has the one row
  \<open>transaction_data\<close>. \<open>transform\<close> names the first half of the body of \<open>predict\<close>,
  from the frame to \<open>X_scaled\<close>.
\<close>

definition transform :: "'f fraud_detection_model \<Rightarrow> transaction
    \<Rightarrow> (error + pyfloat list list) \<times> 'f fraud_detection_model" where
  "transform self transaction_data =
     (let df = [transaction_data] in
      case preprocess_features self df of
        (Inl e, self) \<Rightarrow> (Inl e, self)
      | (Inr (X, _), self) \<Rightarrow>
          (case scaler self of
             None \<Rightarrow> (Inl AttributeError, self)
           | Some sc \<Rightarrow> (scaler_transform sc X, self)))"

definition predict :: "'f sklearn \<Rightarrow> 'f fraud_detection_model \<Rightarrow> transaction
    \<Rightarrow> (error + prediction_result) \<times> 'f fraud_detection_model" where
  "predict sk self transaction_data =
     (if \<not> is_trained self then (Inl NotTrainedError, self)
      else
        (case transform self transaction_data of
           (Inl e, self) \<Rightarrow> (Inl e, self)
         | (Inr X_scaled, self) \<Rightarrow>
             (case model self of
                None \<Rightarrow> (Inl AttributeError, self)
              | Some est \<Rightarrow>
                  (case if_predict sk est X_scaled of
                     Inl e \<Rightarrow> (Inl e, self)
                   | Inr [] \<Rightarrow> (Inl IndexError, self)
                   | Inr (prediction' # _) \<Rightarrow>
                       (case if_decision_function sk est X_scaled of
                          Inl e \<Rightarrow> (Inl e, self)
                        | Inr [] \<Rightarrow> (Inl IndexError, self)
                        | Inr (anomaly_score' # _) \<Rightarrow>
                            (let prediction_label =
                                   (if prediction' = - 1 then ''FRAUD'' else ''SAFE'');
                                 risk_level' =
                                   (if anomaly_score' < - float64_0_1 then ''HIGH''
                                    else if anomaly_score' < 0 then ''MEDIUM''
                                    else ''LOW'');
                                 explanation' =
                                   generate_explanation transaction_data anomaly_score'
                                     prediction_label
                             in (Inr \<lparr>prediction = prediction_label,
                                       anomaly_score = anomaly_score',
                                       risk_level = risk_level',
                                       explanation = explanation'\<rparr>, self)))))))"

section \<open>TransactionDataGenerator\<close>

text \<open>
  The generator draws every random value from numpy's global generator. Its state has
  some type \<open>'g\<close>; the samplers of \<open>numpy.random\<close> are parameters of the model, each
  taking the state and returning the drawn value with the next state. \<open>np_choice_str\<close>
  and \<open>np_choice_int\<close> are \<open>numpy.random.choice\<close> on a list of strings and of integers,
  with the optional weights \<open>p\<close>; \<open>choice(n)\<close> is the choice from \<open>[0, ..., n - 1]\<close>.
\<close>

record 'g np_random =
  np_seed :: "int \<Rightarrow> 'g"
  np_lognormal :: "real \<Rightarrow> real \<Rightarrow> 'g \<Rightarrow> real \<times> 'g"
  np_choice_str :: "string list \<Rightarrow> real list option \<Rightarrow> 'g \<Rightarrow> string \<times> 'g"
  np_choice_int :: "int list \<Rightarrow> real list option \<Rightarrow> 'g \<Rightarrow> int \<times> 'g"
  np_gamma :: "real \<Rightarrow> real \<Rightarrow> 'g \<Rightarrow> real \<times> 'g"
  np_beta :: "real \<Rightarrow> real \<Rightarrow> 'g \<Rightarrow> real \<times> 'g"
  np_poisson :: "real \<Rightarrow> 'g \<Rightarrow> int \<times> 'g"
  np_uniform :: "real \<Rightarrow> real \<Rightarrow> 'g \<Rightarrow> real \<times> 'g"
  np_randint :: "int \<Rightarrow> int \<Rightarrow> 'g \<Rightarrow> int \<times> 'g"
  np_shuffle :: "transaction list \<Rightarrow> 'g \<Rightarrow> transaction list \<times> 'g"

text \<open>\<open>np.clip(x, lo, hi)\<close>, \<open>round(x, nd)\<close> (ties to even) and \<open>int(x)\<close> (towards zero).\<close>

definition clip :: "real \<Rightarrow> real \<Rightarrow> real \<Rightarrow> real" where
  "clip x lo hi = min (max x lo) hi"

definition py_round :: "real \<Rightarrow> nat \<Rightarrow> real" where
  "py_round x nd = of_int (rint (x * 10 ^ nd)) / 10 ^ nd"

definition py_int :: "real \<Rightarrow> int" where
  "py_int x = (if x \<ge> 0 then \<lfloor>x\<rfloor> else \<lceil>x\<rceil>)"

text \<open>
  \<open>__init__\<close>: \<open>np.random.seed(seed)\<close> replaces the state of numpy's generator, whatever
  it was before. (\<open>random.seed(seed)\<close> seeds Python's own generator, which no method of
  the class reads.)
\<close>

definition TransactionDataGenerator :: "'g np_random \<Rightarrow> int \<Rightarrow> 'g \<Rightarrow> 'g" where
  "TransactionDataGenerator np seed g = np_seed np seed"

text \<open>The body of the loop of \<open>generate_normal_transactions\<close>, for the index \<open>i\<close>.\<close>

definition generate_normal_body :: "'g np_random \<Rightarrow> nat \<Rightarrow> 'g \<Rightarrow> transaction \<times> 'g" where
  "generate_normal_body np i g =
     (let (amount', g) = np_lognormal np 3 1.5 g;
          amount' = clip amount' 1 50000;
          transaction_types = [''purchase'', ''transfer'', ''withdrawal'', ''payment''];
          type_weights = [0.4, 0.25, 0.2, 0.15];
          (transaction_type', g) = np_choice_str np transaction_types (Some type_weights) g;
          (account_age_days', g) = np_gamma np 2 365 g;
          (location_risk_score', g) = np_beta np 2 10 g;
          (device_risk_score', g) = np_beta np 3 8 g;
          hour_weights = [0.02, 0.01, 0.01, 0.01, 0.02, 0.03, 0.05, 0.08,
                          0.10, 0.09, 0.08, 0.07, 0.06, 0.07, 0.08, 0.09,
                          0.10, 0.12, 0.15, 0.08, 0.05, 0.03, 0.02, 0.01];
          hour_weights = map (\<lambda>w. w / sum_list hour_weights) hour_weights;
          (transaction_hour', g) = np_choice_int np [0..23] (Some hour_weights) g;
          (past_transactions_24h', g) = np_poisson np 5 g
      in (\<lparr>transaction_id = Some (''TXN_'' @ zfill 6 (str_nat (i + 1))),
           amount = Some (Num (py_round amount' 2)),
           transaction_type = Some transaction_type',
           account_age_days = Some (py_int account_age_days'),
           location_risk_score = Some (Num (py_round location_risk_score' 3)),
           device_risk_score = Some (Num (py_round device_risk_score' 3)),
           transaction_hour = Some transaction_hour',
           past_transactions_24h = Some past_transactions_24h',
           is_anomaly = Some 0\<rparr>, g))"

text \<open>\<open>for i in range(n_transactions): ... transactions.append(transaction)\<close>.\<close>

fun normal_loop :: "'g np_random \<Rightarrow> nat list \<Rightarrow> transaction list \<Rightarrow> 'g
    \<Rightarrow> transaction list \<times> 'g" where
  "normal_loop np [] transactions g = (transactions, g)"
| "normal_loop np (i # is) transactions g =
     (case generate_normal_body np i g of
        (t, g') \<Rightarrow> normal_loop np is (transactions @ [t]) g')"

definition generate_normal_transactions :: "'g np_random \<Rightarrow> nat \<Rightarrow> 'g
    \<Rightarrow> transaction list \<times> 'g" where
  "generate_normal_transactions np n_transactions g = normal_loop np [0..<n_transactions] [] g"

text \<open>
  The body of the loop of \<open>generate_fraudulent_transactions\<close>. It returns the drawn
  \<open>fraud_type\<close> beside the transaction, which does not record it. A branch that does not
  assign \<open>location_risk_score\<close>, \<open>device_risk_score\<close> or \<open>past_transactions_24h\<close> leaves
  \<open>0\<close> there; the two \<open>if\<close>s after the branches assign each of them before it is read.
\<close>

definition generate_fraud_body :: "'g np_random \<Rightarrow> nat \<Rightarrow> 'g
    \<Rightarrow> (string \<times> transaction) \<times> 'g" where
  "generate_fraud_body np i g =
     (let (fraud_type, g) =
            np_choice_str np [''high_amount'', ''late_night'', ''high_risk'', ''burst''] None g;
          (amount', transaction_type', transaction_hour', location_risk_score',
             device_risk_score', past_transactions_24h', g) =
            (if fraud_type = ''high_amount'' then
               (let (amount', g) = np_lognormal np 8 1.5 g;
                    amount' = clip amount' 10000 100000;
                    (transaction_type', g) = np_choice_str np [''transfer'', ''purchase''] None g;
                    (transaction_hour', g) = np_choice_int np [9..20] None g
                in (amount', transaction_type', transaction_hour', 0, 0, 0, g))
             else if fraud_type = ''late_night'' then
               (let (amount', g) = np_lognormal np 4 1.5 g;
                    amount' = clip amount' 100 10000;
                    (transaction_type', g) = np_choice_str np [''transfer'', ''withdrawal''] None g;
                    (transaction_hour', g) = np_choice_int np [0, 1, 2, 3, 4, 5, 22, 23] None g
                in (amount', transaction_type', transaction_hour', 0, 0, 0, g))
             else if fraud_type = ''high_risk'' then
               (let (amount', g) = np_lognormal np 5 1.5 g;
                    amount' = clip amount' 500 20000;
                    (transaction_type', g) = np_choice_str np [''transfer'', ''purchase''] None g;
                    (transaction_hour', g) = np_choice_int np [0..23] None g;
                    (location_risk_score', g) = np_uniform np 0.7 1.0 g;
                    (device_risk_score', g) = np_uniform np 0.7 1.0 g
                in (amount', transaction_type', transaction_hour', location_risk_score',
                    device_risk_score', 0, g))
             else
               (let (amount', g) = np_lognormal np 3.5 1.0 g;
                    amount' = clip amount' 50 5000;
                    (transaction_type', g) = np_choice_str np [''purchase'', ''payment''] None g;
                    (transaction_hour', g) = np_choice_int np [0..23] None g;
                    (past_transactions_24h', g) = np_randint np 20 50 g
                in (amount', transaction_type', transaction_hour', 0, 0,
                    past_transactions_24h', g)));
          (location_risk_score', device_risk_score', g) =
            (if fraud_type \<noteq> ''high_risk'' then
               (let (location_risk_score', g) = np_beta np 1 3 g;
                    (device_risk_score', g) = np_beta np 1 2 g
                in (location_risk_score', device_risk_score', g))
             else (location_risk_score', device_risk_score', g));
          (past_transactions_24h', g) =
            (if fraud_type \<noteq> ''burst'' then np_poisson np 8 g
             else (past_transactions_24h', g));
          (account_age_days', g) = np_gamma np 1 180 g
      in ((fraud_type,
           \<lparr>transaction_id = Some (''FRD_'' @ zfill 6 (str_nat (i + 1))),
            amount = Some (Num (py_round amount' 2)),
            transaction_type = Some transaction_type',
            account_age_days = Some (py_int account_age_days'),
            location_risk_score = Some (Num (py_round location_risk_score' 3)),
            device_risk_score = Some (Num (py_round device_risk_score' 3)),
            transaction_hour = Some transaction_hour',
            past_transactions_24h = Some past_transactions_24h',
            is_anomaly = Some 1\<rparr>), g))"

fun fraud_loop :: "'g np_random \<Rightarrow> nat list \<Rightarrow> (string \<times> transaction) list \<Rightarrow> 'g
    \<Rightarrow> (string \<times> transaction) list \<times> 'g" where
  "fraud_loop np [] transactions g = (transactions, g)"
| "fraud_loop np (i # is) transactions g =
     (case generate_fraud_body np i g of
        (t, g') \<Rightarrow> fraud_loop np is (transactions @ [t]) g')"

definition generate_fraudulent_transactions :: "'g np_random \<Rightarrow> nat \<Rightarrow> 'g
    \<Rightarrow> transaction list \<times> 'g" where
  "generate_fraudulent_transactions np n_transactions g =
     (case fraud_loop np [0..<n_transactions] [] g of
        (transactions, g') \<Rightarrow> (map snd transactions, g'))"

definition generate_dataset :: "'g np_random \<Rightarrow> 'g \<Rightarrow> dataframe \<times> 'g" where
  "generate_dataset np g =
     (let (normal_transactions, g) = generate_normal_transactions np 10000 g;
          (fraudulent_transactions, g) = generate_fraudulent_transactions np 400 g;
          all_transactions = normal_transactions @ fraudulent_transactions;
          (all_transactions, g) = np_shuffle np all_transactions g
      in (all_transactions, g))"

section \<open>The specification's reading of the explanation\<close>

text \<open>
  The six findings of a flagged transaction in their fixed order, each with its
  condition, and the explanation as the specification words it: the summary line, then
  the findings whose condition holds, joined by the separator.
\<close>

definition fraud_findings :: "transaction \<Rightarrow> (bool \<times> string) list" where
  "fraud_findings td =
     (let amount' = dict_get (amount td) (Num 0);
          location_risk = dict_get (location_risk_score td) (Num 0);
          device_risk = dict_get (device_risk_score td) (Num 0);
          hour = dict_get (transaction_hour td) 0;
          past_tx = dict_get (past_transactions_24h td) 0;
          account_age = dict_get (account_age_days td) 0
      in [(pf_gt amount' 10000, ''High transaction amount: $'' @ format_f True 2 amount'),
          (pf_gt location_risk 0.7, ''High location risk score: '' @ format_f False 3 location_risk),
          (pf_gt device_risk 0.7, ''High device risk score: '' @ format_f False 3 device_risk),
          (hour < 6 \<or> hour > 22, ''Unusual transaction time: '' @ str_int hour @ '':00''),
          (past_tx > 20, ''High activity: '' @ str_int past_tx @ '' transactions in 24h''),
          (account_age < 30, ''New account: '' @ str_int account_age @ '' days old'')])"

definition explain_spec :: "transaction \<Rightarrow> real \<Rightarrow> string \<Rightarrow> string" where
  "explain_spec td df label =
     py_join '' | ''
       (if label = ''FRAUD''
        then ''Transaction flagged as potentially fraudulent'' #
             map snd (filter fst (fraud_findings td))
        else ''Transaction appears normal'' #
             (if df > float64_0_1 then [''Low risk profile detected''] else []))"

text \<open>The record with \<open>0\<close> written into each of the six fields that it lacks.\<close>

definition missing_as_zero :: "transaction \<Rightarrow> transaction" where
  "missing_as_zero td =
     td\<lparr>amount := Some (dict_get (amount td) (Num 0)),
        location_risk_score := Some (dict_get (location_risk_score td) (Num 0)),
        device_risk_score := Some (dict_get (device_risk_score td) (Num 0)),
        transaction_hour := Some (dict_get (transaction_hour td) 0),
        past_transactions_24h := Some (dict_get (past_transactions_24h td) 0),
        account_age_days := Some (dict_get (account_age_days td) 0)\<rparr>"

section \<open>Examples to run the model on\<close>

text \<open>
  A stand-in for the library's forest, used only to run the model on examples: the fit
  keeps nothing, and the decision function of a row falls by \<open>1/5\<close> for every cell
  further than \<open>2\<close> from the mean.
\<close>

definition toy_score :: "pyfloat list \<Rightarrow> real" where
  "toy_score row =
     1 / 5 - real (length (filter (\<lambda>c. case c of Num v \<Rightarrow> \<bar>v\<bar> > 2 | NaN \<Rightarrow> False) row)) / 5"

definition toy_sklearn :: "unit sklearn" where
  "toy_sklearn =
     \<lparr>forest_fit = (\<lambda>p X. Inr ()),
      forest_decision_function = (\<lambda>f X. Inr (map toy_score X))\<rparr>"

text \<open>A forest whose decision function is the given score on every row.\<close>

definition const_sklearn :: "real \<Rightarrow> unit sklearn" where
  "const_sklearn d =
     \<lparr>forest_fit = (\<lambda>p X. Inr ()),
      forest_decision_function = (\<lambda>f X. Inr (map (\<lambda>row. d) X))\<rparr>"

definition toy_corpus :: dataframe where
  "toy_corpus =
     [\<lparr>transaction_id = Some ''TXN_000001'', amount = Some (Num 100),
       transaction_type = Some ''purchase'', account_age_days = Some 400,
       location_risk_score = Some (Num 0.1), device_risk_score = Some (Num 0.2),
       transaction_hour = Some 12, past_transactions_24h = Some 4, is_anomaly = Some 0\<rparr>,
      \<lparr>transaction_id = Some ''FRD_000001'', amount = Some (Num 102),
       transaction_type = Some ''transfer'', account_age_days = Some 398,
       location_risk_score = Some (Num 0.1), device_risk_score = Some (Num 0.2),
       transaction_hour = Some 14, past_transactions_24h = Some 6, is_anomaly = Some 1\<rparr>]"

definition toy_estimator :: "unit isolation_forest" where
  "toy_estimator =
     \<lparr>params = \<lparr>n_estimators = 100, max_samples = ''auto'', contamination = 0.04,
                 random_state = 42, n_jobs = - 1\<rparr>,
      fitted = Some ()\<rparr>"

text \<open>The model after \<open>train\<close> on the two transactions above.\<close>

definition toy_trained :: "unit fraud_detection_model" where
  "toy_trained =
     \<lparr>model = Some toy_estimator,
      scaler = Some \<lparr>scaler_mean = [Num 101, Num (1 / 2), Num 399, Num (1 / 10), Num (1 / 5),
                                     Num 13, Num 5],
                     scaler_scale = [Num 1, Num (1 / 2), Num 1, Num 1, Num 1, Num 1, Num 1]\<rparr>,
      label_encoder = Some (LabelEncoder (Some [Some ''purchase'', Some ''transfer''])),
      feature_columns = Some feature_columns_list,
      is_trained = True\<rparr>"

text \<open>The request of the specification's concrete scenario, and two variants of it.\<close>

definition sample_request :: transaction where
  "sample_request =
     \<lparr>transaction_id = None, amount = Some (Num 95000), transaction_type = Some ''transfer'',
      account_age_days = Some 10, location_risk_score = Some (Num 0.9),
      device_risk_score = Some (Num 0.85), transaction_hour = Some 14,
      past_transactions_24h = Some 3, is_anomaly = None\<rparr>"

definition refund_request :: transaction where
  "refund_request = sample_request\<lparr>transaction_type := Some ''refund''\<rparr>"

definition nan_request :: transaction where
  "nan_request = sample_request\<lparr>amount := Some NaN\<rparr>"

definition bare_request :: transaction where
  "bare_request =
     \<lparr>transaction_id = None, amount = None, transaction_type = Some ''transfer'',
      account_age_days = None, location_risk_score = None, device_risk_score = None,
      transaction_hour = None, past_transactions_24h = None, is_anomaly = None\<rparr>"

text \<open>
  A stand-in for numpy's generator, used only to run the generator on examples: its state
  is a counter that starts at the seed, and every draw is a fixed function of the counter.
\<close>

definition toy_index :: "int \<Rightarrow> 'a list \<Rightarrow> nat" where
  "toy_index g xs = nat ((g div 8 + g) mod int (length xs))"

definition toy_np :: "int np_random" where
  "toy_np =
     \<lparr>np_seed = (\<lambda>seed. seed),
      np_lognormal = (\<lambda>mean sigma g. (of_int (g mod 11) * 1234.5678 + 0.004, g + 1)),
      np_choice_str = (\<lambda>xs p g. (xs ! toy_index g xs, g + 1)),
      np_choice_int = (\<lambda>xs p g. (xs ! toy_index g xs, g + 1)),
      np_gamma = (\<lambda>shape scale g. (scale * of_int (g mod 5) + 1 / 2, g + 1)),
      np_beta = (\<lambda>a b g. (of_int (g mod 5) / 4, g + 1)),
      np_poisson = (\<lambda>lam g. (g mod 9, g + 1)),
      np_uniform = (\<lambda>lo hi g. (lo + (hi - lo) * of_int (g mod 4) / 4, g + 1)),
      np_randint = (\<lambda>lo hi g. (lo + g mod (hi - lo), g + 1)),
      np_shuffle = (\<lambda>xs g. (rev xs, g + 1))\<rparr>"

section \<open>What the claims speak of\<close>

text \<open>
  The ranges that numpy documents for its samplers: \<open>beta\<close> draws from \<open>[0, 1]\<close>,
  \<open>uniform(lo, hi)\<close> from \<open>[lo, hi]\<close>, \<open>choice\<close> draws an element of its list, and
  \<open>shuffle\<close> permutes.
\<close>

definition np_in_range :: "'g np_random \<Rightarrow> bool" where
  "np_in_range np \<longleftrightarrow>
     (\<forall>a b g. 0 \<le> fst (np_beta np a b g) \<and> fst (np_beta np a b g) \<le> 1) \<and>
     (\<forall>lo hi g. lo \<le> hi \<longrightarrow>
        lo \<le> fst (np_uniform np lo hi g) \<and> fst (np_uniform np lo hi g) \<le> hi) \<and>
     (\<forall>xs p g. xs \<noteq> [] \<longrightarrow> fst (np_choice_int np xs p g) \<in> set xs) \<and>
     (\<forall>xs g. mset (fst (np_shuffle np xs g)) = mset xs)"

definition amount_within :: "real \<Rightarrow> real \<Rightarrow> transaction \<Rightarrow> bool" where
  "amount_within lo hi t = (case amount t of Some (Num a) \<Rightarrow> lo \<le> a \<and> a \<le> hi | _ \<Rightarrow> False)"

definition hour_valid :: "transaction \<Rightarrow> bool" where
  "hour_valid t = (case transaction_hour t of Some h \<Rightarrow> 0 \<le> h \<and> h \<le> 23 | None \<Rightarrow> False)"

definition risk_scores_valid :: "transaction \<Rightarrow> bool" where
  "risk_scores_valid t =
     (case (location_risk_score t, device_risk_score t) of
        (Some (Num l), Some (Num d)) \<Rightarrow> 0 \<le> l \<and> l \<le> 1 \<and> 0 \<le> d \<and> d \<le> 1
      | _ \<Rightarrow> False)"

text \<open>A dict with every key that the pipeline reads.\<close>

definition complete :: "transaction \<Rightarrow> bool" where
  "complete t \<longleftrightarrow>
     transaction_type t \<noteq> None \<and> amount t \<noteq> None \<and> account_age_days t \<noteq> None \<and>
     location_risk_score t \<noteq> None \<and> device_risk_score t \<noteq> None \<and>
     transaction_hour t \<noteq> None \<and> past_transactions_24h t \<noteq> None"

definition normal_ok :: "transaction \<Rightarrow> bool" where
  "normal_ok t \<longleftrightarrow> amount_within 1 50000 t \<and> hour_valid t \<and> risk_scores_valid t \<and>
     complete t \<and> is_anomaly t = Some 0"

definition fraud_ok :: "string \<times> transaction \<Rightarrow> bool" where
  "fraud_ok p \<longleftrightarrow> (fst p = ''high_amount'' \<longrightarrow> amount_within 10000 100000 (snd p)) \<and>
     hour_valid (snd p) \<and> risk_scores_valid (snd p) \<and> complete (snd p) \<and>
     is_anomaly (snd p) = Some 1"

text \<open>The fraction of the rows of a corpus that are labelled as fraud.\<close>

definition contamination_ratio :: "dataframe \<Rightarrow> real" where
  "contamination_ratio df =
     real (length (filter (\<lambda>r. is_anomaly r = Some 1) df)) / real (length df)"

text \<open>
  Two runs of the generator, each with its own numpy generator (of the same process or of
  another one), draw alike when related states give the same value and related next
  states, for every sampler, and the same seed gives related states.
\<close>

definition draws_alike :: "('g \<Rightarrow> 'h \<Rightarrow> bool) \<Rightarrow> ('g \<Rightarrow> 'a \<times> 'g) \<Rightarrow> ('h \<Rightarrow> 'a \<times> 'h) \<Rightarrow> bool" where
  "draws_alike R f1 f2 \<longleftrightarrow>
     (\<forall>g1 g2. R g1 g2 \<longrightarrow> fst (f1 g1) = fst (f2 g2) \<and> R (snd (f1 g1)) (snd (f2 g2)))"

definition np_sim :: "('g \<Rightarrow> 'h \<Rightarrow> bool) \<Rightarrow> 'g np_random \<Rightarrow> 'h np_random \<Rightarrow> bool" where
  "np_sim R np1 np2 \<longleftrightarrow>
     (\<forall>seed. R (np_seed np1 seed) (np_seed np2 seed)) \<and>
     (\<forall>m s. draws_alike R (np_lognormal np1 m s) (np_lognormal np2 m s)) \<and>
     (\<forall>xs p. draws_alike R (np_choice_str np1 xs p) (np_choice_str np2 xs p)) \<and>
     (\<forall>xs p. draws_alike R (np_choice_int np1 xs p) (np_choice_int np2 xs p)) \<and>
     (\<forall>a b. draws_alike R (np_gamma np1 a b) (np_gamma np2 a b)) \<and>
     (\<forall>a b. draws_alike R (np_beta np1 a b) (np_beta np2 a b)) \<and>
     (\<forall>lam. draws_alike R (np_poisson np1 lam) (np_poisson np2 lam)) \<and>
     (\<forall>lo hi. draws_alike R (np_uniform np1 lo hi) (np_uniform np2 lo hi)) \<and>
     (\<forall>lo hi. draws_alike R (np_randint np1 lo hi) (np_randint np2 lo hi)) \<and>
     (\<forall>xs. draws_alike R (np_shuffle np1 xs) (np_shuffle np2 xs))"

text \<open>
  The numpy generator \<open>np\<close> with every state renumbered by \<open>k\<close>: another process that
  draws the same values from states of its own.
\<close>

definition shifted_np :: "int \<Rightarrow> int np_random \<Rightarrow> int np_random" where
  "shifted_np k np =
     \<lparr>np_seed = (\<lambda>seed. np_seed np seed + k),
      np_lognormal = (\<lambda>m s g. case np_lognormal np m s (g - k) of (v, g') \<Rightarrow> (v, g' + k)),
      np_choice_str = (\<lambda>xs p g. case np_choice_str np xs p (g - k) of (v, g') \<Rightarrow> (v, g' + k)),
      np_choice_int = (\<lambda>xs p g. case np_choice_int np xs p (g - k) of (v, g') \<Rightarrow> (v, g' + k)),
      np_gamma = (\<lambda>a b g. case np_gamma np a b (g - k) of (v, g') \<Rightarrow> (v, g' + k)),
      np_beta = (\<lambda>a b g. case np_beta np a b (g - k) of (v, g') \<Rightarrow> (v, g' + k)),
      np_poisson = (\<lambda>lam g. case np_poisson np lam (g - k) of (v, g') \<Rightarrow> (v, g' + k)),
      np_uniform = (\<lambda>lo hi g. case np_uniform np lo hi (g - k) of (v, g') \<Rightarrow> (v, g' + k)),
      np_randint = (\<lambda>lo hi g. case np_randint np lo hi (g - k) of (v, g') \<Rightarrow> (v, g' + k)),
      np_shuffle = (\<lambda>xs g. case np_shuffle np xs (g - k) of (v, g') \<Rightarrow> (v, g' + k))\<rparr>"

section \<open>Properties\<close>

subsection \<open>Running the examples\<close>

lemma sqrt_quarter: "sqrt (1 / 4) = 1 / 2"
  by (simp add: real_sqrt_divide)

lemmas text_simps = format_f_def rint_def str_nat.simps group3.simps zfill_def digit_char_def
  str_int_def

lemmas pipeline_simps = preprocess_features_def getitem_transaction_type_def
  le_fit_transform_def le_classes_def le_transform_def select_features_def
  feature_columns_list_def numeric_column_def numeric_field_def of_int_cell_def dict_get_def
  fillna_mean_def fillna_col_def series_mean_def present_values_def scaler_fit_def
  series_std_def handle_zeros_in_scale_def scaler_transform_def standardize_def to_rows_def
  IsolationForest_def if_fit_def if_decision_function_def if_predict_def Let_def

lemmas toy_simps = toy_corpus_def toy_sklearn_def toy_score_def toy_estimator_def
  toy_trained_def sample_request_def refund_request_def nan_request_def bare_request_def
  init_def

lemma toy_train: "train toy_sklearn init toy_corpus = (Inr toy_estimator, toy_trained)"
  by (simp add: train_def pipeline_simps toy_simps sqrt_quarter power2_eq_square)

lemma toy_predict_sample:
  "predict toy_sklearn toy_trained sample_request =
     (Inr \<lparr>prediction = ''FRAUD'', anomaly_score = - 1 / 5, risk_level = ''HIGH'',
            explanation = ''Transaction flagged as potentially fraudulent | High transaction amount: $95,000.00 | High location risk score: 0.900 | High device risk score: 0.850 | New account: 10 days old''\<rparr>,
      toy_trained)"
  by (simp add: predict_def transform_def pipeline_simps toy_simps generate_explanation_def
      pf_gt_def text_simps float64_0_1_def)

subsection \<open>The explanation\<close>

lemma float64_0_1_near: "1 / 10 < float64_0_1 \<and> float64_0_1 < 1 / 10 + 1 / 2 ^ 57"
  by (simp add: float64_0_1_def)

text \<open>
  C5: for every record, decision-function value and label, the explanation is the
  separator-joined list that begins with the summary line; for the label FRAUD it goes on
  with the findings for amount > 10000, location risk > 0.7, device risk > 0.7, hour
  outside [6, 22], more than 20 past transactions and an account younger than 30 days, in
  this order and each exactly when its condition holds; for any other label (SAFE) it
  goes on with the low-risk note exactly when the decision-function value is > 0.1, the
  binary64 number \<open>float64_0_1\<close> of the program's literal.
\<close>

theorem explanation_findings_in_order:
  "generate_explanation td df label = explain_spec td df label"
  unfolding generate_explanation_def explain_spec_def fraud_findings_def Let_def
  by (simp del: py_join.simps)

text \<open>
  A safe record whose score is exactly the binary64 number of \<open>0.1\<close> gets no low-risk
  note; with the score \<open>0.2\<close> it gets the note.
\<close>

theorem explanation_findings_in_order_witness:
  "generate_explanation sample_request float64_0_1 ''SAFE'' = ''Transaction appears normal'' \<and>
   generate_explanation sample_request (1 / 5) ''SAFE'' =
     ''Transaction appears normal | Low risk profile detected''"
proof -
  have "explain_spec sample_request float64_0_1 ''SAFE'' = ''Transaction appears normal''"
    by (simp add: explain_spec_def)
  moreover have "explain_spec sample_request (1 / 5) ''SAFE'' =
      ''Transaction appears normal | Low risk profile detected''"
    by (simp add: explain_spec_def float64_0_1_def)
  ultimately show ?thesis
    by (simp only: explanation_findings_in_order)
qed

lemma dict_get_Some: "dict_get (Some v) d = v"
  by (simp add: dict_get_def)

text \<open>
  C10: the explanation of a record that lacks any of the six fields is the explanation
  of the record with 0 in their place. The function reads the record through
  \<open>dict_get\<close> only, which has no failing case, so it returns a text for every record.
\<close>

theorem explanation_missing_fields_as_zero:
  "generate_explanation td df label = generate_explanation (missing_as_zero td) df label"
  by (simp add: generate_explanation_def missing_as_zero_def dict_get_Some)

text \<open>
  A flagged record with none of the six fields is reported with an unusual transaction
  time at hour 0 and as a new account of 0 days.
\<close>

theorem explanation_missing_fields_as_zero_witness:
  "generate_explanation bare_request (- 1 / 5) ''FRAUD'' =
     ''Transaction flagged as potentially fraudulent | Unusual transaction time: 0:00 | New account: 0 days old''"
proof -
  have "generate_explanation (missing_as_zero bare_request) (- 1 / 5) ''FRAUD'' =
     ''Transaction flagged as potentially fraudulent | Unusual transaction time: 0:00 | New account: 0 days old''"
    by (simp add: generate_explanation_def missing_as_zero_def bare_request_def dict_get_def
        pf_gt_def text_simps)
  then show ?thesis
    by (simp only: explanation_missing_fields_as_zero [of bare_request "- 1 / 5" "''FRAUD''"])
qed

subsection \<open>Prediction\<close>

text \<open>
  C9: \<open>predict\<close> on a model whose fit has not completed fails with NotTrainedError: it
  returns no result and the model is unchanged.
\<close>

theorem predict_before_fit_fails:
  "\<not> is_trained self \<Longrightarrow> predict sk self td = (Inl NotTrainedError, self)"
  by (simp add: predict_def)

theorem predict_before_fit_fails_witness:
  "\<not> is_trained (init :: unit fraud_detection_model) \<and>
   predict toy_sklearn init sample_request = (Inl NotTrainedError, init)"
  using predict_before_fit_fails [of init toy_sklearn sample_request]
  by (simp add: init_def)

lemma set_le_classes: "set (le_classes col) = set col"
proof -
  have "Some ` set (concat (map (\<lambda>c. case c of None \<Rightarrow> [] | Some s \<Rightarrow> [s]) col)) = set col - {None}"
    by (induction col) (auto split: option.splits)
  then show ?thesis
    by (auto simp: le_classes_def)
qed

lemma preprocess_features_init:
  "preprocess_features init df = (Inr r, self) \<Longrightarrow>
     self = init\<lparr>label_encoder := Some (LabelEncoder (Some (le_classes (map transaction_type df))))\<rparr>"
  by (auto simp: preprocess_features_def init_def getitem_transaction_type_def le_fit_transform_def
      Let_def split: sum.splits if_splits)

lemma train_fitted:
  assumes "train sk init df = (Inr est, self)"
  shows "is_trained self"
    and "label_encoder self = Some (LabelEncoder (Some (le_classes (map transaction_type df))))"
    and "model self = Some est"
  using assms
  by (auto simp: train_def Let_def if_fit_def IsolationForest_def
      split: prod.splits sum.splits dest!: preprocess_features_init)

lemma predict_unseen_label:
  assumes "is_trained self" "label_encoder self = Some (LabelEncoder (Some cs))"
    and "transaction_type td = Some ty" "Some ty \<notin> set cs"
  shows "predict sk self td = (Inl UnknownCategoryError, self)"
  using assms
  by (simp add: predict_def transform_def preprocess_features_def getitem_transaction_type_def
      le_transform_def)

text \<open>
  C3: after \<open>train\<close> of a new model on a corpus, \<open>predict\<close> on a record whose
  \<open>transaction_type\<close> is none of the corpus fails with UnknownCategoryError and returns
  the model as it was; so any later \<open>predict\<close> gives what it would have given without
  the failed request.
\<close>

theorem predict_unknown_category_fails:
  assumes "train sk init df = (Inr est, self)"
    and "transaction_type td = Some ty"
    and "Some ty \<notin> set (map transaction_type df)"
  shows "predict sk self td = (Inl UnknownCategoryError, self) \<and>
         predict sk (snd (predict sk self td)) td' = predict sk self td'"
proof -
  have "Some ty \<notin> set (le_classes (map transaction_type df))"
    using assms(3) by (simp add: set_le_classes)
  then have "predict sk self td = (Inl UnknownCategoryError, self)"
    using train_fitted(1,2) [OF assms(1)] assms(2) by (rule_tac predict_unseen_label) auto
  then show ?thesis by simp
qed

theorem predict_unknown_category_fails_witness:
  "train toy_sklearn init toy_corpus = (Inr toy_estimator, toy_trained) \<and>
   transaction_type refund_request = Some ''refund'' \<and>
   Some ''refund'' \<notin> set (map transaction_type toy_corpus) \<and>
   predict toy_sklearn toy_trained refund_request = (Inl UnknownCategoryError, toy_trained) \<and>
   predict toy_sklearn (snd (predict toy_sklearn toy_trained refund_request)) sample_request =
     predict toy_sklearn toy_trained sample_request"
proof -
  have t: "transaction_type refund_request = Some ''refund''"
    by (simp add: refund_request_def sample_request_def)
  have n: "Some ''refund'' \<notin> set (map transaction_type toy_corpus)"
    by (simp add: toy_corpus_def)
  show ?thesis
    using predict_unknown_category_fails [OF toy_train t n, of sample_request] toy_train t n
    by simp
qed

text \<open>
  C4: whenever \<open>predict\<close> returns a result, its score is a value of the decision function
  of the model's forest, its label is FRAUD if the score is below 0 and SAFE otherwise,
  and its risk level is HIGH below -0.1, MEDIUM from -0.1 up to 0, and LOW from 0 on,
  where -0.1 is the binary64 number \<open>- float64_0_1\<close> of the program's literal. The
  breakpoints are the same for every model and every forest.
\<close>

theorem classify_breakpoints:
  assumes "predict sk self td = (Inr r, self')"
  shows "prediction r = (if anomaly_score r < 0 then ''FRAUD'' else ''SAFE'') \<and>
         risk_level r = (if anomaly_score r < - float64_0_1 then ''HIGH''
                         else if anomaly_score r < 0 then ''MEDIUM'' else ''LOW'') \<and>
         (\<exists>est X rest. model self' = Some est \<and>
            if_decision_function sk est X = Inr (anomaly_score r # rest))"
proof -
  from assms obtain X est d rest where
    m: "model self' = Some est" and
    d: "if_decision_function sk est X = Inr (d # rest)" and
    r: "r = \<lparr>prediction = (if d < 0 then ''FRAUD'' else ''SAFE''), anomaly_score = d,
             risk_level = (if d < - float64_0_1 then ''HIGH''
                           else if d < 0 then ''MEDIUM'' else ''LOW''),
             explanation = generate_explanation td d (if d < 0 then ''FRAUD'' else ''SAFE'')\<rparr>"
    by (auto simp: predict_def if_predict_def Let_def
        split: if_splits prod.splits sum.splits option.splits list.splits)
  from r have "anomaly_score r = d" by simp
  with m d r show ?thesis by auto
qed

lemma const_predict_sample:
  "predict (const_sklearn d) toy_trained sample_request =
     (Inr \<lparr>prediction = (if d < 0 then ''FRAUD'' else ''SAFE''), anomaly_score = d,
            risk_level = (if d < - float64_0_1 then ''HIGH''
                          else if d < 0 then ''MEDIUM'' else ''LOW''),
            explanation =
              generate_explanation sample_request d (if d < 0 then ''FRAUD'' else ''SAFE'')\<rparr>,
      toy_trained)"
  by (simp add: predict_def transform_def pipeline_simps toy_simps const_sklearn_def)

text \<open>
  The scenario's request with the stand-in forest (score -0.2: FRAUD, HIGH), and with a
  forest whose score is exactly the binary64 number of \<open>-0.1\<close>: FRAUD, MEDIUM.
\<close>

theorem classify_breakpoints_witness:
  "(\<exists>r. predict toy_sklearn toy_trained sample_request = (Inr r, toy_trained) \<and>
        anomaly_score r = - 1 / 5 \<and> prediction r = ''FRAUD'' \<and> risk_level r = ''HIGH'') \<and>
   (\<exists>r. predict (const_sklearn (- float64_0_1)) toy_trained sample_request =
          (Inr r, toy_trained) \<and>
        anomaly_score r = - float64_0_1 \<and> prediction r = ''FRAUD'' \<and>
        risk_level r = ''MEDIUM'')"
proof -
  have p: "0 < float64_0_1" by (simp add: float64_0_1_def)
  have h: "- (1 / 5) < - float64_0_1" by (simp add: float64_0_1_def)
  show ?thesis
    using classify_breakpoints [OF toy_predict_sample]
      classify_breakpoints [OF const_predict_sample [of "- float64_0_1"]]
      toy_predict_sample const_predict_sample [of "- float64_0_1"] p h
    by simp
qed

subsection \<open>The generator\<close>

lemma rint_ge: "of_int l \<le> x \<Longrightarrow> l \<le> rint x"
proof -
  assume "of_int l \<le> x"
  then have "l \<le> \<lfloor>x\<rfloor>" by (simp add: le_floor_iff)
  then show ?thesis by (auto simp: rint_def Let_def)
qed

lemma rint_le: "x \<le> of_int h \<Longrightarrow> rint x \<le> h"
proof -
  assume xh: "x \<le> of_int h"
  then have f: "\<lfloor>x\<rfloor> \<le> h" by (simp add: floor_le_iff)
  show ?thesis
  proof (cases "x = of_int \<lfloor>x\<rfloor>")
    case True
    then have "x - of_int \<lfloor>x\<rfloor> = 0" by simp
    then show ?thesis using f by (simp add: rint_def Let_def)
  next
    case False
    moreover have "of_int \<lfloor>x\<rfloor> \<le> x" by (rule of_int_floor_le)
    ultimately have "of_int \<lfloor>x\<rfloor> < x" by linarith
    then have "of_int \<lfloor>x\<rfloor> < (of_int h :: real)" using xh by linarith
    then have "\<lfloor>x\<rfloor> < h" by simp
    then show ?thesis by (auto simp: rint_def Let_def)
  qed
qed

lemma py_round_bounds:
  assumes "of_int l / 10 ^ nd \<le> x" "x \<le> of_int h / 10 ^ nd"
  shows "of_int l / 10 ^ nd \<le> py_round x nd \<and> py_round x nd \<le> of_int h / 10 ^ nd"
proof -
  have p: "(0::real) < 10 ^ nd" by simp
  from assms(1) have "of_int l \<le> x * 10 ^ nd" using p by (simp add: pos_divide_le_eq)
  then have a: "l \<le> rint (x * 10 ^ nd)" by (rule rint_ge)
  from assms(2) have "x * 10 ^ nd \<le> of_int h" using p by (simp add: pos_le_divide_eq)
  then have b: "rint (x * 10 ^ nd) \<le> h" by (rule rint_le)
  from a b show ?thesis
    unfolding py_round_def using p by (simp add: divide_le_cancel)
qed

lemma py_round2_bounds:
  "of_int l \<le> x \<Longrightarrow> x \<le> of_int h \<Longrightarrow> of_int l \<le> py_round x nd \<and> py_round x nd \<le> of_int h"
  using py_round_bounds [of "l * 10 ^ nd" nd x "h * 10 ^ nd"] by simp

lemma clip_bounds: "lo \<le> hi \<Longrightarrow> lo \<le> clip x lo hi \<and> clip x lo hi \<le> hi"
  by (simp add: clip_def)


lemma round_risk: "0 \<le> x \<Longrightarrow> x \<le> 1 \<Longrightarrow> 0 \<le> py_round x 3 \<and> py_round x 3 \<le> 1"
  using py_round2_bounds [of 0 x 1 3] by simp

lemma round_amount:
  assumes "l \<le> h"
  shows "of_int l \<le> py_round (clip x (of_int l) (of_int h)) 2 \<and>
         py_round (clip x (of_int l) (of_int h)) 2 \<le> of_int h"
proof -
  have "real_of_int l \<le> of_int h" using assms by simp
  then have "of_int l \<le> clip x (of_int l) (of_int h) \<and> clip x (of_int l) (of_int h) \<le> of_int h"
    by (rule clip_bounds)
  then show ?thesis
    using py_round2_bounds [of l "clip x (of_int l) (of_int h)" h 2] by blast
qed

lemma np_beta_range:
  "np_in_range np \<Longrightarrow> 0 \<le> fst (np_beta np a b g) \<and> fst (np_beta np a b g) \<le> 1"
  by (simp add: np_in_range_def)

lemma np_uniform_range:
  "np_in_range np \<Longrightarrow> lo \<le> hi \<Longrightarrow>
     lo \<le> fst (np_uniform np lo hi g) \<and> fst (np_uniform np lo hi g) \<le> hi"
  by (simp add: np_in_range_def)

lemma np_choice_int_range:
  "np_in_range np \<Longrightarrow> xs \<noteq> [] \<Longrightarrow> fst (np_choice_int np xs p g) \<in> set xs"
  by (simp add: np_in_range_def)

lemma np_shuffle_mset:
  "np_in_range np \<Longrightarrow> mset (fst (np_shuffle np xs g)) = mset xs"
  by (simp add: np_in_range_def)

lemma normal_body_ok:
  assumes "np_in_range np"
  shows "normal_ok (fst (generate_normal_body np i g))"
proof -
  note beta = np_beta_range [OF assms]
  have choice: "\<And>p g. 0 \<le> fst (np_choice_int np [0..23] p g) \<and> fst (np_choice_int np [0..23] p g) \<le> 23"
    using np_choice_int_range [OF assms, of "[0..23]"] by simp
  have a: "\<And>x. 1 \<le> py_round (clip x 1 50000) 2 \<and> py_round (clip x 1 50000) 2 \<le> 50000"
    using round_amount [of 1 50000] by simp
  show ?thesis
    using a beta choice
    unfolding normal_ok_def generate_normal_body_def Let_def amount_within_def hour_valid_def
      risk_scores_valid_def complete_def
    by (simp add: case_prod_beta round_risk)
qed


lemma fraud_body_ok:
  assumes "np_in_range np"
  shows "fraud_ok (fst (generate_fraud_body np i g))"
proof -
  note beta = np_beta_range [OF assms]
  have unif: "\<And>g. 0 \<le> fst (np_uniform np 0.7 1.0 g) \<and> fst (np_uniform np 0.7 1.0 g) \<le> 1"
    proof -
    fix g
    have "(0.7::real) \<le> 1.0" by simp
    from np_uniform_range [OF assms this, of g]
    show "0 \<le> fst (np_uniform np 0.7 1.0 g) \<and> fst (np_uniform np 0.7 1.0 g) \<le> 1"
      by linarith
  qed
  have c1: "\<And>p g. 0 \<le> fst (np_choice_int np [0..23] p g) \<and> fst (np_choice_int np [0..23] p g) \<le> 23"
    using np_choice_int_range [OF assms, of "[0..23]"] by simp
  have c2: "\<And>p g. 0 \<le> fst (np_choice_int np [9..20] p g) \<and> fst (np_choice_int np [9..20] p g) \<le> 23"
  proof -
    fix p g
    have "fst (np_choice_int np [9..20] p g) \<in> set [9..20]"
      by (rule np_choice_int_range [OF assms]) simp
    then have "fst (np_choice_int np [9..20] p g) \<in> {9..20}"
      by (simp only: set_upto)
    then show "0 \<le> fst (np_choice_int np [9..20] p g) \<and> fst (np_choice_int np [9..20] p g) \<le> 23"
      by (simp only: atLeastAtMost_iff) linarith
  qed
  have c3: "\<And>p g. 0 \<le> fst (np_choice_int np [0, 1, 2, 3, 4, 5, 22, 23] p g) \<and>
                  fst (np_choice_int np [0, 1, 2, 3, 4, 5, 22, 23] p g) \<le> 23"
  proof -
    fix p g
    have "fst (np_choice_int np [0, 1, 2, 3, 4, 5, 22, 23] p g) \<in> set [0, 1, 2, 3, 4, 5, 22, 23]"
      by (rule np_choice_int_range [OF assms]) simp
    then show "0 \<le> fst (np_choice_int np [0, 1, 2, 3, 4, 5, 22, 23] p g) \<and>
                  fst (np_choice_int np [0, 1, 2, 3, 4, 5, 22, 23] p g) \<le> 23"
      by auto
  qed
  have a: "\<And>x. 10000 \<le> py_round (clip x 10000 100000) 2 \<and> py_round (clip x 10000 100000) 2 \<le> 100000"
    using round_amount [of 10000 100000] by simp
  show ?thesis
    using a beta unif c1 c2 c3
    unfolding fraud_ok_def generate_fraud_body_def Let_def amount_within_def hour_valid_def
      risk_scores_valid_def complete_def
    by (simp add: case_prod_beta round_risk)
qed




lemma normal_loop_all:
  assumes "\<And>i g. P (fst (generate_normal_body np i g))"
  shows "list_all P acc \<Longrightarrow> list_all P (fst (normal_loop np idx acc g))"
proof (induction idx arbitrary: acc g)
  case Nil
  then show ?case by simp
next
  case (Cons i idx)
  have "list_all P (acc @ [fst (generate_normal_body np i g)])"
    using Cons.prems assms by simp
  then show ?case
    using Cons.IH by (simp add: case_prod_beta)
qed

lemma normal_loop_length: "length (fst (normal_loop np idx acc g)) = length acc + length idx"
  by (induction idx arbitrary: acc g) (simp_all add: case_prod_beta)

lemma fraud_loop_all:
  assumes "\<And>i g. P (fst (generate_fraud_body np i g))"
  shows "list_all P acc \<Longrightarrow> list_all P (fst (fraud_loop np idx acc g))"
proof (induction idx arbitrary: acc g)
  case Nil
  then show ?case by simp
next
  case (Cons i idx)
  have "list_all P (acc @ [fst (generate_fraud_body np i g)])"
    using Cons.prems assms by simp
  then show ?case
    using Cons.IH by (simp add: case_prod_beta)
qed

lemma fraud_loop_length: "length (fst (fraud_loop np idx acc g)) = length acc + length idx"
  by (induction idx arbitrary: acc g) (simp_all add: case_prod_beta)

lemma generate_normal_ok:
  "np_in_range np \<Longrightarrow> list_all normal_ok (fst (generate_normal_transactions np n g))"
  unfolding generate_normal_transactions_def
  by (rule normal_loop_all) (simp_all add: normal_body_ok)

lemma generate_normal_length: "length (fst (generate_normal_transactions np n g)) = n"
  by (simp add: generate_normal_transactions_def normal_loop_length)

lemma fraud_loop_ok:
  "np_in_range np \<Longrightarrow> list_all fraud_ok (fst (fraud_loop np [0..<n] [] g))"
  by (rule fraud_loop_all) (simp_all add: fraud_body_ok)

lemma generate_fraudulent_eq:
  "fst (generate_fraudulent_transactions np n g) = map snd (fst (fraud_loop np [0..<n] [] g))"
  by (simp add: generate_fraudulent_transactions_def case_prod_beta)

lemma generate_fraudulent_length: "length (fst (generate_fraudulent_transactions np n g)) = n"
  by (simp add: generate_fraudulent_eq fraud_loop_length)




lemma generate_normal_member:
  "np_in_range np \<Longrightarrow> t \<in> set (fst (generate_normal_transactions np n g)) \<Longrightarrow> normal_ok t"
  using generate_normal_ok [of np n g] by (simp add: list_all_iff)

lemma fraud_loop_member:
  "np_in_range np \<Longrightarrow> p \<in> set (fst (fraud_loop np [0..<n] [] g)) \<Longrightarrow> fraud_ok p"
  using fraud_loop_ok [of np n g] by (simp add: list_all_iff)

lemma generate_fraudulent_member:
  assumes "np_in_range np" "t \<in> set (fst (generate_fraudulent_transactions np n g))"
  shows "fraud_ok (''fraud'', t)"
proof -
  from assms(2) obtain p where p: "p \<in> set (fst (fraud_loop np [0..<n] [] g))" "t = snd p"
    by (auto simp: generate_fraudulent_eq)
  then show ?thesis
    using fraud_loop_member [OF assms(1) p(1)] by (simp add: fraud_ok_def)
qed




lemma generate_dataset_mset:
  "np_in_range np \<Longrightarrow>
     mset (fst (generate_dataset np g)) =
       mset (fst (generate_normal_transactions np 10000 g)) +
       mset (fst (generate_fraudulent_transactions np 400
                    (snd (generate_normal_transactions np 10000 g))))"
  by (simp add: generate_dataset_def Let_def case_prod_beta np_shuffle_mset)

lemma generate_dataset_set:
  assumes "np_in_range np"
  shows "set (fst (generate_dataset np g)) =
       set (fst (generate_normal_transactions np 10000 g)) \<union>
       set (fst (generate_fraudulent_transactions np 400
                   (snd (generate_normal_transactions np 10000 g))))"
proof -
  have "set_mset (mset (fst (generate_dataset np g))) =
       set_mset (mset (fst (generate_normal_transactions np 10000 g)) +
       mset (fst (generate_fraudulent_transactions np 400
                    (snd (generate_normal_transactions np 10000 g)))))"
    using generate_dataset_mset [OF assms, of g] by (rule arg_cong)
  then show ?thesis
    unfolding set_mset_union set_mset_mset .
qed

lemma toy_np_in_range: "np_in_range toy_np"
proof -
  have u: "\<And>lo hi :: real. \<And>g :: int. lo \<le> hi \<Longrightarrow>
      lo \<le> lo + (hi - lo) * of_int (g mod 4) / 4 \<and> lo + (hi - lo) * of_int (g mod 4) / 4 \<le> hi"
  proof -
    fix lo hi :: real and g :: int
    assume "lo \<le> hi"
    then have d: "0 \<le> hi - lo" by simp
    have "0 \<le> g mod 4 \<and> g mod 4 \<le> 3" by presburger
    then have "(0::real) \<le> of_int (g mod 4) \<and> (of_int (g mod 4) :: real) \<le> 3" by linarith
    then have k: "0 \<le> real_of_int (g mod 4) / 4 \<and> real_of_int (g mod 4) / 4 \<le> 1"
      by simp
    have "0 \<le> (hi - lo) * (real_of_int (g mod 4) / 4)"
      using d k by simp
    moreover have "(hi - lo) * (real_of_int (g mod 4) / 4) \<le> (hi - lo) * 1"
      using d k by (intro mult_left_mono) auto
    ultimately show "lo \<le> lo + (hi - lo) * of_int (g mod 4) / 4 \<and>
        lo + (hi - lo) * of_int (g mod 4) / 4 \<le> hi"
      by simp
  qed
  have b: "\<And>g :: int. 0 \<le> real_of_int (g mod 5) / 4 \<and> real_of_int (g mod 5) / 4 \<le> 1"
  proof -
    fix g :: int
    have "0 \<le> g mod 5 \<and> g mod 5 \<le> 4" by presburger
    then have "(0::real) \<le> of_int (g mod 5) \<and> (of_int (g mod 5) :: real) \<le> 4" by linarith
    then show "0 \<le> real_of_int (g mod 5) / 4 \<and> real_of_int (g mod 5) / 4 \<le> 1" by simp
  qed
  have i: "\<And>(xs :: int list) g. xs \<noteq> [] \<Longrightarrow> toy_index g xs < length xs"
  proof -
    fix xs :: "int list" and g :: int
    assume "xs \<noteq> []"
    then have "0 < int (length xs)" by simp
    then have "(g div 8 + g) mod int (length xs) < int (length xs)"
      by (rule pos_mod_bound)
    moreover have "0 \<le> (g div 8 + g) mod int (length xs)"
      using \<open>0 < int (length xs)\<close> by (rule pos_mod_sign)
    ultimately show "toy_index g xs < length xs"
      unfolding toy_index_def by linarith
  qed
  have 1: "\<forall>a b g. 0 \<le> fst (np_beta toy_np a b g) \<and> fst (np_beta toy_np a b g) \<le> 1"
    using b by (simp add: toy_np_def)
  have 2: "\<forall>lo hi g. lo \<le> hi \<longrightarrow>
      lo \<le> fst (np_uniform toy_np lo hi g) \<and> fst (np_uniform toy_np lo hi g) \<le> hi"
    using u by (simp add: toy_np_def)
  have 3: "\<forall>xs p g. xs \<noteq> [] \<longrightarrow> fst (np_choice_int toy_np xs p g) \<in> set xs"
    using i by (simp add: toy_np_def)
  have 4: "\<forall>xs g. mset (fst (np_shuffle toy_np xs g)) = mset xs"
    by (simp add: toy_np_def)
  show ?thesis
    unfolding np_in_range_def using 1 2 3 4 by blast
qed

lemmas generator_simps = generate_normal_transactions_def generate_normal_body_def
  generate_fraudulent_transactions_def generate_fraud_body_def toy_np_def toy_index_def clip_def
  py_round_def py_int_def rint_def zfill_def str_nat.simps digit_char_def Let_def upt_conv_Cons

text \<open>
  C7: when numpy's samplers stay in their documented ranges, every generated normal
  record has its amount in [1, 50000], every generated fraud record of the archetype
  \<open>high_amount\<close> has its amount in [10000, 100000], and every generated record, normal
  or fraud, before and after the shuffle, has its hour in [0, 23] and both risk scores in
  [0, 1]. The fields are the values after rounding (2 decimals for the amount, 3 for the
  risk scores).
\<close>

theorem generated_values_within_bounds:
  assumes "np_in_range np"
  shows "(\<forall>t \<in> set (fst (generate_normal_transactions np n g)).
            amount_within 1 50000 t \<and> hour_valid t \<and> risk_scores_valid t) \<and>
         (\<forall>(fraud_type, t) \<in> set (fst (fraud_loop np [0..<n] [] g)).
            (fraud_type = ''high_amount'' \<longrightarrow> amount_within 10000 100000 t) \<and>
            hour_valid t \<and> risk_scores_valid t) \<and>
         (\<forall>t \<in> set (fst (generate_fraudulent_transactions np n g)).
            hour_valid t \<and> risk_scores_valid t) \<and>
         (\<forall>t \<in> set (fst (generate_dataset np g)). hour_valid t \<and> risk_scores_valid t)"
proof (intro conjI ballI)
  fix t
  assume "t \<in> set (fst (generate_normal_transactions np n g))"
  from generate_normal_member [OF assms this]
  show "amount_within 1 50000 t" "hour_valid t" "risk_scores_valid t"
    by (simp_all add: normal_ok_def)
next
  fix p
  assume "p \<in> set (fst (fraud_loop np [0..<n] [] g))"
  from fraud_loop_member [OF assms this]
  show "case p of (fraud_type, t) \<Rightarrow>
            (fraud_type = ''high_amount'' \<longrightarrow> amount_within 10000 100000 t) \<and>
            hour_valid t \<and> risk_scores_valid t"
    by (simp add: fraud_ok_def case_prod_beta)
next
  fix t
  assume "t \<in> set (fst (generate_fraudulent_transactions np n g))"
  from generate_fraudulent_member [OF assms this]
  show "hour_valid t" "risk_scores_valid t"
    by (simp_all add: fraud_ok_def)
next
  fix t
  assume "t \<in> set (fst (generate_dataset np g))"
  then consider "t \<in> set (fst (generate_normal_transactions np 10000 g))"
    | "t \<in> set (fst (generate_fraudulent_transactions np 400
                   (snd (generate_normal_transactions np 10000 g))))"
    unfolding generate_dataset_set [OF assms] by (erule UnE)
  then have "hour_valid t \<and> risk_scores_valid t"
  proof cases
    case 1
    from generate_normal_member [OF assms this] show ?thesis by (simp add: normal_ok_def)
  next
    case 2
    from generate_fraudulent_member [OF assms this] show ?thesis by (simp add: fraud_ok_def)
  qed
  then show "hour_valid t" "risk_scores_valid t" by simp_all
qed

theorem generated_values_within_bounds_witness:
  "np_in_range toy_np \<and>
   map amount (fst (generate_normal_transactions toy_np 2 42)) =
     [Some (Num 11111.11), Some (Num 6172.84)] \<and>
   list_all (\<lambda>t. amount_within 1 50000 t \<and> hour_valid t \<and> risk_scores_valid t)
     (fst (generate_normal_transactions toy_np 2 42)) \<and>
   map (\<lambda>p. (fst p, amount (snd p))) (fst (fraud_loop toy_np [0..<4] [] 0)) =
     [(''high_amount'', Some (Num 10000)), (''late_night'', Some (Num 10000)),
      (''high_risk'', Some (Num 7407.41)), (''burst'', Some (Num 3703.71))] \<and>
   list_all (\<lambda>(fraud_type, t).
       (fraud_type = ''high_amount'' \<longrightarrow> amount_within 10000 100000 t) \<and>
       hour_valid t \<and> risk_scores_valid t)
     (fst (fraud_loop toy_np [0..<4] [] 0))"
proof -
  have n: "map amount (fst (generate_normal_transactions toy_np 2 42)) =
     [Some (Num 11111.11), Some (Num 6172.84)]"
    by (simp add: generator_simps)
  have f: "map (\<lambda>p. (fst p, amount (snd p))) (fst (fraud_loop toy_np [0..<4] [] 0)) =
     [(''high_amount'', Some (Num 10000)), (''late_night'', Some (Num 10000)),
      (''high_risk'', Some (Num 7407.41)), (''burst'', Some (Num 3703.71))]"
    by (simp add: generator_simps)
  show ?thesis
    using generated_values_within_bounds [OF toy_np_in_range, of 2 42]
      generated_values_within_bounds [OF toy_np_in_range, of 4 0] toy_np_in_range n f
    by (simp only: list_all_iff) blast
qed

subsection \<open>The feature vector\<close>

lemma numeric_field_relabel:
  "name \<noteq> ''is_anomaly'' \<Longrightarrow> numeric_field name (r\<lparr>is_anomaly := v\<rparr>) = numeric_field name r"
  by (simp add: numeric_field_def)

lemma numeric_column_relabel:
  "name \<noteq> ''is_anomaly'' \<Longrightarrow>
     numeric_column \<lparr>frame = map (\<lambda>r. r\<lparr>is_anomaly := lbl r\<rparr>) df, transaction_type_encoded = c\<rparr> name =
     numeric_column \<lparr>frame = df, transaction_type_encoded = c\<rparr> name"
  by (simp add: numeric_column_def numeric_field_relabel list_ex_iff)

lemma check_columns_relabel:
  "''is_anomaly'' \<notin> set names \<Longrightarrow>
     check_columns \<lparr>frame = map (\<lambda>r. r\<lparr>is_anomaly := lbl r\<rparr>) df, transaction_type_encoded = c\<rparr> names =
     check_columns \<lparr>frame = df, transaction_type_encoded = c\<rparr> names"
  by (induction names) (auto simp: numeric_column_relabel)

lemma select_columns_relabel:
  "''is_anomaly'' \<notin> set names \<Longrightarrow>
     select_columns \<lparr>frame = map (\<lambda>r. r\<lparr>is_anomaly := lbl r\<rparr>) df, transaction_type_encoded = c\<rparr> names =
     select_columns \<lparr>frame = df, transaction_type_encoded = c\<rparr> names"
  by (induction names) (auto simp: numeric_column_relabel split: option.splits sum.splits)

lemma select_features_relabel:
  "select_features \<lparr>frame = map (\<lambda>r. r\<lparr>is_anomaly := lbl r\<rparr>) df, transaction_type_encoded = c\<rparr> =
   select_features \<lparr>frame = df, transaction_type_encoded = c\<rparr>"
proof -
  have "''is_anomaly'' \<notin> set feature_columns_list"
    by (simp add: feature_columns_list_def)
  then show ?thesis
    by (simp add: select_features_def check_columns_relabel select_columns_relabel
        cong: sum.case_cong)
qed

lemma getitem_transaction_type_relabel:
  "getitem_transaction_type (map (\<lambda>r. r\<lparr>is_anomaly := lbl r\<rparr>) df) = getitem_transaction_type df"
  by (simp add: getitem_transaction_type_def list_ex_iff o_def)

lemma preprocess_features_relabel:
  "preprocess_features self (map (\<lambda>r. r\<lparr>is_anomaly := lbl r\<rparr>) df) = preprocess_features self df"
  by (simp add: preprocess_features_def getitem_transaction_type_relabel select_features_relabel
      Let_def split: option.splits sum.splits prod.splits)

lemma select_columns_names:
  "select_columns dfp names = Inr X \<Longrightarrow> map fst X = names"
  by (induction names arbitrary: X) (auto split: option.splits sum.splits)

lemma select_features_names:
  "select_features dfp = Inr (X, cols) \<Longrightarrow> map fst X = feature_columns_list \<and> cols = feature_columns_list"
  by (auto simp: select_features_def fillna_mean_def o_def case_prod_beta
      split: sum.splits dest!: select_columns_names)

lemma preprocess_features_names:
  "preprocess_features self df = (Inr (X, cols), self') \<Longrightarrow>
     map fst X = feature_columns_list \<and> cols = feature_columns_list"
  by (auto simp: preprocess_features_def Let_def case_prod_beta
      split: option.splits sum.splits dest!: select_features_names)

text \<open>
  C8: whenever \<open>preprocess_features\<close> returns a frame, at fit time (no encoder yet) as at
  inference time (the fitted encoder), its columns are exactly the seven features in
  their order, \<open>is_anomaly\<close> is none of them, and the whole result is the same whatever
  the rows carry as \<open>is_anomaly\<close>.
\<close>

theorem feature_vector_excludes_label:
  assumes "preprocess_features self df = (Inr (X, cols), self')"
  shows "map fst X = [''amount'', ''transaction_type_encoded'', ''account_age_days'',
                      ''location_risk_score'', ''device_risk_score'', ''transaction_hour'',
                      ''past_transactions_24h''] \<and>
         cols = map fst X \<and>
         ''is_anomaly'' \<notin> set (map fst X) \<and>
         preprocess_features self (map (\<lambda>r. r\<lparr>is_anomaly := lbl r\<rparr>) df) =
           preprocess_features self df"
  using preprocess_features_names [OF assms] preprocess_features_relabel [of self lbl df]
  by (simp add: feature_columns_list_def)

lemma toy_preprocess_sample:
  "preprocess_features toy_trained [sample_request] =
     (Inr ([(''amount'', [Num 95000]), (''transaction_type_encoded'', [Num 1]),
            (''account_age_days'', [Num 10]), (''location_risk_score'', [Num (9 / 10)]),
            (''device_risk_score'', [Num (17 / 20)]), (''transaction_hour'', [Num 14]),
            (''past_transactions_24h'', [Num 3])], feature_columns_list), toy_trained)"
  by (simp add: pipeline_simps toy_simps)

theorem feature_vector_excludes_label_witness:
  "preprocess_features toy_trained [sample_request] =
     (Inr ([(''amount'', [Num 95000]), (''transaction_type_encoded'', [Num 1]),
            (''account_age_days'', [Num 10]), (''location_risk_score'', [Num (9 / 10)]),
            (''device_risk_score'', [Num (17 / 20)]), (''transaction_hour'', [Num 14]),
            (''past_transactions_24h'', [Num 3])], feature_columns_list), toy_trained) \<and>
   preprocess_features toy_trained [sample_request\<lparr>is_anomaly := Some 1\<rparr>] =
     preprocess_features toy_trained [sample_request]"
  using feature_vector_excludes_label [OF toy_preprocess_sample, of "\<lambda>r. Some 1"] toy_preprocess_sample
  by simp

text \<open>
  C1: the claim is that a missing value is filled with the mean that was computed at fit
  time. At fit time \<open>preprocess_features\<close> does fill a missing amount with the mean of
  the corpus (101 for the two amounts 100 and 102). At inference time the same function
  runs on the one-row frame of the request: the mean of its only cell is NaN, nothing is
  filled, and the missing amount reaches the scaled vector as NaN, where the fitted mean
  would give 0.
\<close>

theorem missing_value_not_filled_at_inference:
  "(case fst (preprocess_features (init :: unit fraud_detection_model) (toy_corpus @ [nan_request])) of
      Inr (X, cols) \<Rightarrow> map_of X ''amount'' = Some [Num 100, Num 102, Num 101]
    | Inl e \<Rightarrow> False) \<and>
   scaler toy_trained =
     Some \<lparr>scaler_mean = [Num 101, Num (1 / 2), Num 399, Num (1 / 10), Num (1 / 5), Num 13, Num 5],
           scaler_scale = [Num 1, Num (1 / 2), Num 1, Num 1, Num 1, Num 1, Num 1]\<rparr> \<and>
   fst (transform toy_trained nan_request) =
     Inr [[NaN, Num 1, Num (- 389), Num (4 / 5), Num (13 / 20), Num 1, Num (- 2)]] \<and>
   fst (transform toy_trained (nan_request\<lparr>amount := Some (Num 101)\<rparr>)) =
     Inr [[Num 0, Num 1, Num (- 389), Num (4 / 5), Num (13 / 20), Num 1, Num (- 2)]]"
  by (simp add: transform_def pipeline_simps toy_simps)

subsection \<open>The corpus\<close>

lemma np_sim_draws:
  assumes "np_sim R np1 np2"
  shows "draws_alike R (np_lognormal np1 m s) (np_lognormal np2 m s)"
    and "draws_alike R (np_choice_str np1 xs p) (np_choice_str np2 xs p)"
    and "draws_alike R (np_choice_int np1 ys p) (np_choice_int np2 ys p)"
    and "draws_alike R (np_gamma np1 a b) (np_gamma np2 a b)"
    and "draws_alike R (np_beta np1 a b) (np_beta np2 a b)"
    and "draws_alike R (np_poisson np1 lam) (np_poisson np2 lam)"
    and "draws_alike R (np_uniform np1 lo hi) (np_uniform np2 lo hi)"
    and "draws_alike R (np_randint np1 l h) (np_randint np2 l h)"
    and "draws_alike R (np_shuffle np1 ts) (np_shuffle np2 ts)"
  using assms by (simp_all add: np_sim_def)

lemma sim_step:
  assumes "draws_alike R f1 f2" "R g1 g2"
  shows "fst (f1 g1) = fst (f2 g2) \<and> R (snd (f1 g1)) (snd (f2 g2))"
  using assms by (simp add: draws_alike_def)

lemma normal_body_alike:
  assumes "np_sim R np1 np2"
  shows "draws_alike R (generate_normal_body np1 i) (generate_normal_body np2 i)"
  unfolding draws_alike_def
proof (intro allI impI)
  fix g1 g2
  assume r0: "R g1 g2"
  note d = np_sim_draws [OF assms]
  let ?a1 = "np_lognormal np1 3 1.5 g1" and ?a2 = "np_lognormal np2 3 1.5 g2"
  have a: "fst ?a1 = fst ?a2 \<and> R (snd ?a1) (snd ?a2)"
    using d(1) r0 by (rule sim_step)
  let ?ty = "[''purchase'', ''transfer'', ''withdrawal'', ''payment'']"
  let ?tw = "Some [0.4, 0.25, 0.2, 0.15 :: real]"
  let ?b1 = "np_choice_str np1 ?ty ?tw (snd ?a1)" and ?b2 = "np_choice_str np2 ?ty ?tw (snd ?a2)"
  have b: "fst ?b1 = fst ?b2 \<and> R (snd ?b1) (snd ?b2)"
    using d(2) a [THEN conjunct2] by (rule sim_step)
  let ?c1 = "np_gamma np1 2 365 (snd ?b1)" and ?c2 = "np_gamma np2 2 365 (snd ?b2)"
  have c: "fst ?c1 = fst ?c2 \<and> R (snd ?c1) (snd ?c2)"
    using d(4) b [THEN conjunct2] by (rule sim_step)
  let ?e1 = "np_beta np1 2 10 (snd ?c1)" and ?e2 = "np_beta np2 2 10 (snd ?c2)"
  have e: "fst ?e1 = fst ?e2 \<and> R (snd ?e1) (snd ?e2)"
    using d(5) c [THEN conjunct2] by (rule sim_step)
  let ?f1 = "np_beta np1 3 8 (snd ?e1)" and ?f2 = "np_beta np2 3 8 (snd ?e2)"
  have f: "fst ?f1 = fst ?f2 \<and> R (snd ?f1) (snd ?f2)"
    using d(5) e [THEN conjunct2] by (rule sim_step)
  have h: "fst (np_choice_int np1 ys p (snd ?f1)) = fst (np_choice_int np2 ys p (snd ?f2)) \<and>
           R (snd (np_choice_int np1 ys p (snd ?f1))) (snd (np_choice_int np2 ys p (snd ?f2)))"
    for ys p
    using d(3) f [THEN conjunct2] by (rule sim_step)
  have k: "fst (np_poisson np1 5 (snd (np_choice_int np1 ys p (snd ?f1)))) =
           fst (np_poisson np2 5 (snd (np_choice_int np2 ys p (snd ?f2)))) \<and>
           R (snd (np_poisson np1 5 (snd (np_choice_int np1 ys p (snd ?f1)))))
             (snd (np_poisson np2 5 (snd (np_choice_int np2 ys p (snd ?f2)))))"
    for ys p
    using d(6) h [THEN conjunct2] by (rule sim_step)
  show "fst (generate_normal_body np1 i g1) = fst (generate_normal_body np2 i g2) \<and>
        R (snd (generate_normal_body np1 i g1)) (snd (generate_normal_body np2 i g2))"
    apply (simp only: generate_normal_body_def Let_def case_prod_beta fst_conv snd_conv)
    apply (simp only: a [THEN conjunct1] b [THEN conjunct1] c [THEN conjunct1]
        e [THEN conjunct1] f [THEN conjunct1] h [THEN conjunct1] k [THEN conjunct1])
    apply (simp only: k [THEN conjunct2] simp_thms)
    done
qed

lemma round_clip_cong: "x = y \<Longrightarrow> py_round (clip x lo hi) nd = py_round (clip y lo hi) nd"
  by simp

lemma round_cong: "x = y \<Longrightarrow> py_round x nd = py_round y nd"
  by simp

lemma py_int_cong: "x = y \<Longrightarrow> py_int x = py_int y"
  by simp

lemma clip_cong: "x = y \<Longrightarrow> clip x lo hi = clip y lo hi"
  by simp

lemma Some_cong: "x = y \<Longrightarrow> Some x = Some y"
  by simp

lemma Num_cong: "x = y \<Longrightarrow> Num x = Num y"
  by simp

lemma Pair_cong: "a = c \<Longrightarrow> b = d \<Longrightarrow> (a, b) = (c, d)"
  by simp

lemma transaction_cong:
  "a = a' \<Longrightarrow> b = b' \<Longrightarrow> c = c' \<Longrightarrow> d = d' \<Longrightarrow> e = e' \<Longrightarrow> f = f' \<Longrightarrow> h = h' \<Longrightarrow> k = k' \<Longrightarrow>
     l = l' \<Longrightarrow>
     \<lparr>transaction_id = a, amount = b, transaction_type = c, account_age_days = d,
      location_risk_score = e, device_risk_score = f, transaction_hour = h,
      past_transactions_24h = k, is_anomaly = l\<rparr> =
     \<lparr>transaction_id = a', amount = b', transaction_type = c', account_age_days = d',
      location_risk_score = e', device_risk_score = f', transaction_hour = h',
      past_transactions_24h = k', is_anomaly = l'\<rparr>"
  by simp

lemma np_sim_values:
  assumes "np_sim R np1 np2" "R a b"
  shows "fst (np_lognormal np1 m s a) = fst (np_lognormal np2 m s b)"
    and "fst (np_choice_str np1 xs p a) = fst (np_choice_str np2 xs p b)"
    and "fst (np_choice_int np1 ys p a) = fst (np_choice_int np2 ys p b)"
    and "fst (np_gamma np1 x y a) = fst (np_gamma np2 x y b)"
    and "fst (np_beta np1 x y a) = fst (np_beta np2 x y b)"
    and "fst (np_poisson np1 x a) = fst (np_poisson np2 x b)"
    and "fst (np_uniform np1 x y a) = fst (np_uniform np2 x y b)"
    and "fst (np_randint np1 l h a) = fst (np_randint np2 l h b)"
    and "fst (np_shuffle np1 ts a) = fst (np_shuffle np2 ts b)"
  using assms by (simp_all add: np_sim_def draws_alike_def)

lemma np_sim_states:
  assumes "np_sim R np1 np2" "R a b"
  shows "R (snd (np_lognormal np1 m s a)) (snd (np_lognormal np2 m s b))"
    and "R (snd (np_choice_str np1 xs p a)) (snd (np_choice_str np2 xs p b))"
    and "R (snd (np_choice_int np1 ys p a)) (snd (np_choice_int np2 ys p b))"
    and "R (snd (np_gamma np1 x y a)) (snd (np_gamma np2 x y b))"
    and "R (snd (np_beta np1 x y a)) (snd (np_beta np2 x y b))"
    and "R (snd (np_poisson np1 x a)) (snd (np_poisson np2 x b))"
    and "R (snd (np_uniform np1 x y a)) (snd (np_uniform np2 x y b))"
    and "R (snd (np_randint np1 l h a)) (snd (np_randint np2 l h b))"
    and "R (snd (np_shuffle np1 ts a)) (snd (np_shuffle np2 ts b))"
  using assms by (simp_all add: np_sim_def draws_alike_def)

lemma fraud_body_alike:
  assumes "np_sim R np1 np2"
  shows "draws_alike R (generate_fraud_body np1 i) (generate_fraud_body np2 i)"
  unfolding draws_alike_def
proof (intro allI impI)
  fix g1 g2
  assume r0: "R g1 g2"
  note v = np_sim_values [OF assms]
  note w = np_sim_states [OF assms]
  note rules = conjI refl Pair_cong transaction_cong Some_cong Num_cong round_cong clip_cong
    py_int_cong v w r0
  let ?L = "[''high_amount'', ''late_night'', ''high_risk'', ''burst'']"
  let ?ft = "fst (np_choice_str np2 ?L None g2)"
  have t: "fst (np_choice_str np1 ?L None g1) = ?ft"
    using r0 by (rule v(2))
  have ne: "(''high_amount'' = ''high_risk'') = False" "(''high_amount'' = ''burst'') = False"
    "(''late_night'' = ''high_amount'') = False" "(''late_night'' = ''high_risk'') = False"
    "(''late_night'' = ''burst'') = False" "(''high_risk'' = ''high_amount'') = False"
    "(''high_risk'' = ''late_night'') = False" "(''high_risk'' = ''burst'') = False"
    "(''burst'' = ''high_amount'') = False" "(''burst'' = ''late_night'') = False"
    "(''burst'' = ''high_risk'') = False"
    by simp_all
  note unfold = generate_fraud_body_def Let_def case_prod_beta
  note ifs = if_True if_False fst_conv snd_conv not_False_eq_True not_True_eq_False
    refl [THEN eqTrueI] ne
  consider (high) "?ft = ''high_amount''" | (late) "?ft = ''late_night''"
    | (risk) "?ft = ''high_risk''" | (burst) "?ft = ''burst''"
    | (other) "?ft \<noteq> ''high_amount''" "?ft \<noteq> ''late_night''" "?ft \<noteq> ''high_risk''"
        "?ft \<noteq> ''burst''"
    by blast
  then show "fst (generate_fraud_body np1 i g1) = fst (generate_fraud_body np2 i g2) \<and>
        R (snd (generate_fraud_body np1 i g1)) (snd (generate_fraud_body np2 i g2))"
  proof cases
    case high
    show ?thesis
      apply (simp only: unfold t high)
      apply (simp only: ifs)
      apply (intro rules)
      done
  next
    case late
    show ?thesis
      apply (simp only: unfold t late)
      apply (simp only: ifs)
      apply (intro rules)
      done
  next
    case risk
    show ?thesis
      apply (simp only: unfold t risk)
      apply (simp only: ifs)
      apply (intro rules)
      done
  next
    case burst
    show ?thesis
      apply (simp only: unfold t burst)
      apply (simp only: ifs)
      apply (intro rules)
      done
  next
    case other
    note o = other [THEN eq_False [THEN iffD2]]
    show ?thesis
      apply (simp only: unfold t o)
      apply (simp only: ifs)
      apply (intro rules)
      done
  qed
qed

lemma np_sim_eq: "np_sim (=) np np"
  by (simp add: np_sim_def draws_alike_def)

lemma np_sim_shifted: "np_sim (\<lambda>a b. b = a + k) np (shifted_np k np)"
  by (simp add: np_sim_def draws_alike_def shifted_np_def case_prod_beta)

lemma normal_loop_alike:
  assumes "np_sim R np1 np2"
  shows "R g1 g2 \<Longrightarrow>
     fst (normal_loop np1 idx acc g1) = fst (normal_loop np2 idx acc g2) \<and>
     R (snd (normal_loop np1 idx acc g1)) (snd (normal_loop np2 idx acc g2))"
proof (induction idx arbitrary: acc g1 g2)
  case Nil
  then show ?case by simp
next
  case (Cons i idx)
  have b: "fst (generate_normal_body np1 i g1) = fst (generate_normal_body np2 i g2) \<and>
           R (snd (generate_normal_body np1 i g1)) (snd (generate_normal_body np2 i g2))"
    using normal_body_alike [OF assms] Cons.prems by (rule sim_step)
  show ?case
    using Cons.IH [OF b [THEN conjunct2]] b [THEN conjunct1]
    by (simp add: case_prod_beta)
qed

lemma fraud_loop_alike:
  assumes "np_sim R np1 np2"
  shows "R g1 g2 \<Longrightarrow>
     fst (fraud_loop np1 idx acc g1) = fst (fraud_loop np2 idx acc g2) \<and>
     R (snd (fraud_loop np1 idx acc g1)) (snd (fraud_loop np2 idx acc g2))"
proof (induction idx arbitrary: acc g1 g2)
  case Nil
  then show ?case by simp
next
  case (Cons i idx)
  have b: "fst (generate_fraud_body np1 i g1) = fst (generate_fraud_body np2 i g2) \<and>
           R (snd (generate_fraud_body np1 i g1)) (snd (generate_fraud_body np2 i g2))"
    using fraud_body_alike [OF assms] Cons.prems by (rule sim_step)
  show ?case
    using Cons.IH [OF b [THEN conjunct2]] b [THEN conjunct1]
    by (simp add: case_prod_beta)
qed

lemma generate_normal_alike:
  assumes "np_sim R np1 np2" "R g1 g2"
  shows "fst (generate_normal_transactions np1 n g1) = fst (generate_normal_transactions np2 n g2) \<and>
         R (snd (generate_normal_transactions np1 n g1)) (snd (generate_normal_transactions np2 n g2))"
  unfolding generate_normal_transactions_def using assms by (rule normal_loop_alike)

lemma generate_fraudulent_alike:
  assumes "np_sim R np1 np2" "R g1 g2"
  shows "fst (generate_fraudulent_transactions np1 n g1) =
           fst (generate_fraudulent_transactions np2 n g2) \<and>
         R (snd (generate_fraudulent_transactions np1 n g1))
           (snd (generate_fraudulent_transactions np2 n g2))"
  using fraud_loop_alike [OF assms, of "[0..<n]" "[]"]
  by (simp add: generate_fraudulent_transactions_def case_prod_beta)

lemma generate_dataset_alike:
  assumes "np_sim R np1 np2" "R g1 g2"
  shows "fst (generate_dataset np1 g1) = fst (generate_dataset np2 g2) \<and>
         R (snd (generate_dataset np1 g1)) (snd (generate_dataset np2 g2))"
proof -
  let ?n1 = "generate_normal_transactions np1 10000 g1"
  let ?n2 = "generate_normal_transactions np2 10000 g2"
  have n: "fst ?n1 = fst ?n2 \<and> R (snd ?n1) (snd ?n2)"
    using assms by (rule generate_normal_alike)
  let ?f1 = "generate_fraudulent_transactions np1 400 (snd ?n1)"
  let ?f2 = "generate_fraudulent_transactions np2 400 (snd ?n2)"
  have f: "fst ?f1 = fst ?f2 \<and> R (snd ?f1) (snd ?f2)"
    using assms(1) n [THEN conjunct2] by (rule generate_fraudulent_alike)
  have s: "fst (np_shuffle np1 ts (snd ?f1)) = fst (np_shuffle np2 ts (snd ?f2)) \<and>
           R (snd (np_shuffle np1 ts (snd ?f1))) (snd (np_shuffle np2 ts (snd ?f2)))" for ts
    using np_sim_values(9) [OF assms(1) f [THEN conjunct2]]
      np_sim_states(9) [OF assms(1) f [THEN conjunct2]] by (rule conjI)
  show ?thesis
    apply (simp only: generate_dataset_def Let_def case_prod_beta fst_conv snd_conv)
    apply (simp only: n [THEN conjunct1] f [THEN conjunct1])
    apply (rule s)
    done
qed

lemma toy_np_states:
  "snd (np_lognormal toy_np m s g) = g + 1"
  "snd (np_choice_str toy_np xs p g) = g + 1"
  "snd (np_choice_int toy_np ys p g) = g + 1"
  "snd (np_gamma toy_np a b g) = g + 1"
  "snd (np_beta toy_np a b g) = g + 1"
  "snd (np_poisson toy_np lam g) = g + 1"
  "snd (np_uniform toy_np lo hi g) = g + 1"
  "snd (np_randint toy_np l h g) = g + 1"
  "snd (np_shuffle toy_np ts g) = g + 1"
  by (simp_all add: toy_np_def)

lemma toy_normal_body_state: "snd (generate_normal_body toy_np i g) = g + 7"
  by (simp add: generate_normal_body_def Let_def case_prod_beta toy_np_states)

lemma toy_index_less: "xs \<noteq> [] \<Longrightarrow> toy_index g xs < length xs"
proof -
  assume "xs \<noteq> []"
  then have p: "0 < int (length xs)" by simp
  then have "(g div 8 + g) mod int (length xs) < int (length xs)"
    by (rule pos_mod_bound)
  moreover have "0 \<le> (g div 8 + g) mod int (length xs)"
    using p by (rule pos_mod_sign)
  ultimately show "toy_index g xs < length xs"
    unfolding toy_index_def by linarith
qed

lemma toy_choice_str_mem: "xs \<noteq> [] \<Longrightarrow> fst (np_choice_str toy_np xs p g) \<in> set xs"
  by (simp add: toy_np_def toy_index_less)

lemma toy_fraud_body_state: "snd (generate_fraud_body toy_np i g) = g + 8"
proof -
  have "fst (np_choice_str toy_np [''high_amount'', ''late_night'', ''high_risk'', ''burst'']
          None g) \<in> set [''high_amount'', ''late_night'', ''high_risk'', ''burst'']"
    by (rule toy_choice_str_mem) simp
  then show ?thesis
    by (auto simp: generate_fraud_body_def Let_def case_prod_beta toy_np_states)
qed

lemma toy_normal_loop_state:
  "snd (normal_loop toy_np idx acc g) = g + 7 * int (length idx)"
  by (induction idx arbitrary: acc g) (simp_all add: case_prod_beta toy_normal_body_state)

lemma toy_fraud_loop_state:
  "snd (fraud_loop toy_np idx acc g) = g + 8 * int (length idx)"
  by (induction idx arbitrary: acc g) (simp_all add: case_prod_beta toy_fraud_body_state)

lemma toy_generate_dataset_state: "snd (generate_dataset toy_np g) = g + 73201"
proof -
  have n: "snd (generate_normal_transactions toy_np 10000 g) = g + 70000"
    by (simp add: generate_normal_transactions_def toy_normal_loop_state)
  have f: "snd (generate_fraudulent_transactions toy_np 400 g') = g' + 3200" for g'
    by (simp add: generate_fraudulent_transactions_def case_prod_beta toy_fraud_loop_state)
  have s: "snd (np_shuffle toy_np ts g') = g' + 1" for ts g'
    by (rule toy_np_states)
  show ?thesis
    by (simp add: generate_dataset_def Let_def case_prod_beta n f s)
qed

lemma normal_loop_acc:
  "fst (normal_loop np idx acc g) = acc @ fst (normal_loop np idx [] g)"
proof (induction idx arbitrary: acc g)
  case Nil
  then show ?case by simp
next
  case (Cons i idx)
  show ?case
    using Cons.IH [of "acc @ [fst (generate_normal_body np i g)]"]
      Cons.IH [of "[fst (generate_normal_body np i g)]"]
    by (simp add: case_prod_beta)
qed

lemma generate_normal_hd:
  "0 < n \<Longrightarrow> hd (fst (generate_normal_transactions np n g)) = fst (generate_normal_body np 0 g)"
  using normal_loop_acc [of np "[1..<n]" "[fst (generate_normal_body np 0 g)]"]
  by (simp add: generate_normal_transactions_def upt_conv_Cons case_prod_beta)

lemma toy_generate_dataset_last:
  "last (fst (generate_dataset toy_np g)) = fst (generate_normal_body toy_np 0 g)"
proof -
  let ?n = "fst (generate_normal_transactions toy_np 10000 g)"
  have ne: "?n \<noteq> []"
    using generate_normal_length [of toy_np 10000 g] by auto
  have "fst (generate_dataset toy_np g) =
      rev (?n @ fst (generate_fraudulent_transactions toy_np 400
                       (snd (generate_normal_transactions toy_np 10000 g))))"
    by (simp add: generate_dataset_def Let_def case_prod_beta toy_np_def)
  then have "last (fst (generate_dataset toy_np g)) = hd ?n"
    using ne by (simp add: last_rev)
  then show ?thesis
    by (simp add: generate_normal_hd)
qed

text \<open>
  C6 as it is stated fails: for the generator constructed with the seed 42, a second run
  of \<open>generate_dataset\<close> on the same generator (as \<open>get_sample_transaction\<close> does) starts
  from the state that the first run left and generates another corpus (here with the
  stand-in for numpy: the records that the shuffle puts last have the amounts 11111.11
  and 6172.84).
\<close>

theorem rerun_on_same_generator_differs:
  "fst (generate_dataset toy_np (snd (generate_dataset toy_np (TransactionDataGenerator toy_np 42 0)))) \<noteq>
   fst (generate_dataset toy_np (TransactionDataGenerator toy_np 42 0))"
proof -
  have a: "amount (last (fst (generate_dataset toy_np 42))) = Some (Num 11111.11)"
    by (simp only: toy_generate_dataset_last) (simp add: generator_simps)
  have b: "amount (last (fst (generate_dataset toy_np 73243))) = Some (Num 6172.84)"
    by (simp only: toy_generate_dataset_last) (simp add: generator_simps)
  have ne: "fst (generate_dataset toy_np 73243) \<noteq> fst (generate_dataset toy_np 42)"
  proof
    assume "fst (generate_dataset toy_np 73243) = fst (generate_dataset toy_np 42)"
    then have "amount (last (fst (generate_dataset toy_np 73243))) =
        amount (last (fst (generate_dataset toy_np 42)))"
      by (rule arg_cong)
    then show False
      unfolding a b by simp
  qed
  have s: "TransactionDataGenerator toy_np 42 0 = 42"
    by (simp add: TransactionDataGenerator_def toy_np_def)
  have st: "snd (generate_dataset toy_np 42) = 73243"
    unfolding toy_generate_dataset_state by simp
  show ?thesis
    unfolding s st by (rule ne)
qed

text \<open>
  C6, amended: two runs of corpus generation that each begin with the construction of
  the generator with the same seed produce the same ordered sequence of records, field
  for field and in the same order after the shuffle, for the same counts of normal and
  fraud records, whenever numpy's generators draw alike in the two runs. Within one
  process they always do (\<open>np_sim_eq\<close>), whatever the state of numpy's generator was
  before the construction.
\<close>

theorem seeded_runs_generate_same_corpus:
  assumes "np_sim R np1 np2"
  shows "fst (generate_dataset np1 (TransactionDataGenerator np1 seed g1)) =
           fst (generate_dataset np2 (TransactionDataGenerator np2 seed g2)) \<and>
         fst (generate_normal_transactions np1 normal_count (TransactionDataGenerator np1 seed g1)) =
           fst (generate_normal_transactions np2 normal_count (TransactionDataGenerator np2 seed g2)) \<and>
         fst (generate_fraudulent_transactions np1 fraud_count (TransactionDataGenerator np1 seed g1)) =
           fst (generate_fraudulent_transactions np2 fraud_count (TransactionDataGenerator np2 seed g2))"
proof -
  have r: "R (TransactionDataGenerator np1 seed g1) (TransactionDataGenerator np2 seed g2)"
    using assms by (simp add: TransactionDataGenerator_def np_sim_def)
  show ?thesis
    using generate_dataset_alike [OF assms r] generate_normal_alike [OF assms r]
      generate_fraudulent_alike [OF assms r]
    by blast
qed

theorem seeded_runs_generate_same_corpus_witness:
  "np_sim (=) toy_np toy_np \<and>
   fst (generate_dataset toy_np (TransactionDataGenerator toy_np 42 0)) =
     fst (generate_dataset toy_np (TransactionDataGenerator toy_np 42 73243)) \<and>
   np_sim (\<lambda>a b. b = a + 1000) toy_np (shifted_np 1000 toy_np) \<and>
   fst (generate_dataset toy_np (TransactionDataGenerator toy_np 42 0)) =
     fst (generate_dataset (shifted_np 1000 toy_np)
            (TransactionDataGenerator (shifted_np 1000 toy_np) 42 5))"
proof -
  have 1: "fst (generate_dataset toy_np (TransactionDataGenerator toy_np 42 0)) =
     fst (generate_dataset toy_np (TransactionDataGenerator toy_np 42 73243))"
    by (rule seeded_runs_generate_same_corpus [OF np_sim_eq, THEN conjunct1])
  have 2: "fst (generate_dataset toy_np (TransactionDataGenerator toy_np 42 0)) =
     fst (generate_dataset (shifted_np 1000 toy_np)
            (TransactionDataGenerator (shifted_np 1000 toy_np) 42 5))"
    by (rule seeded_runs_generate_same_corpus [OF np_sim_shifted, THEN conjunct1])
  show ?thesis
    using 1 2 np_sim_eq [of toy_np] np_sim_shifted [of 1000 toy_np] by (intro conjI)
qed

lemma length_filter_mset: "length (filter P xs) = size (filter_mset P (mset xs))"
  by (metis mset_filter size_mset)

lemma filter_none: "list_all (\<lambda>x. \<not> P x) xs \<Longrightarrow> size (filter_mset P (mset xs)) = 0"
  by (induction xs) auto

lemma filter_every: "list_all P xs \<Longrightarrow> size (filter_mset P (mset xs)) = length xs"
  by (induction xs) auto

lemma generate_fraudulent_ok:
  assumes "np_in_range np"
  shows "list_all (\<lambda>t. complete t \<and> is_anomaly t = Some 1)
           (fst (generate_fraudulent_transactions np n g))"
  using fraud_loop_ok [OF assms, of n g]
  by (simp add: generate_fraudulent_eq list_all_iff fraud_ok_def)

lemma generated_contamination_ratio:
  assumes "np_in_range np"
  shows "contamination_ratio (fst (generate_dataset np g)) = 400 / 10400"
proof -
  let ?N = "fst (generate_normal_transactions np 10000 g)"
  let ?F = "fst (generate_fraudulent_transactions np 400 (snd (generate_normal_transactions np 10000 g)))"
  let ?P = "\<lambda>r. is_anomaly r = Some 1"
  have m: "mset (fst (generate_dataset np g)) = mset ?N + mset ?F"
    by (rule generate_dataset_mset [OF assms])
  have "list_all (\<lambda>t. \<not> ?P t) ?N"
    using generate_normal_ok [OF assms, of 10000 g] by (simp add: list_all_iff normal_ok_def)
  then have n0: "size (filter_mset ?P (mset ?N)) = 0" by (rule filter_none)
  have "list_all ?P ?F"
    using generate_fraudulent_ok [OF assms] by (simp add: list_all_iff)
  then have "size (filter_mset ?P (mset ?F)) = length ?F" by (rule filter_every)
  then have f400: "size (filter_mset ?P (mset ?F)) = 400"
    by (simp only: generate_fraudulent_length)
  have "length (filter ?P (fst (generate_dataset np g))) =
      size (filter_mset ?P (mset ?N + mset ?F))"
    by (simp only: length_filter_mset m)
  then have c: "length (filter ?P (fst (generate_dataset np g))) = 400"
    using n0 f400 by simp
  have "length (fst (generate_dataset np g)) = size (mset ?N + mset ?F)"
    by (metis m size_mset)
  then have l: "length (fst (generate_dataset np g)) = 10400"
    by (simp add: generate_normal_length generate_fraudulent_length)
  show ?thesis
    unfolding contamination_ratio_def c l by simp
qed

lemma generate_dataset_complete:
  assumes "np_in_range np"
  shows "list_all complete (fst (generate_dataset np g))"
proof -
  have "\<forall>t \<in> set (fst (generate_dataset np g)). complete t"
  proof
    fix t
    assume "t \<in> set (fst (generate_dataset np g))"
    then consider "t \<in> set (fst (generate_normal_transactions np 10000 g))"
      | "t \<in> set (fst (generate_fraudulent_transactions np 400
                   (snd (generate_normal_transactions np 10000 g))))"
      unfolding generate_dataset_set [OF assms] by (erule UnE)
    then show "complete t"
    proof cases
      case 1
      from generate_normal_member [OF assms this] show ?thesis by (simp add: normal_ok_def)
    next
      case 2
      from generate_fraudulent_member [OF assms this] show ?thesis by (simp add: fraud_ok_def)
    qed
  qed
  then show ?thesis by (simp add: list_all_iff)
qed

lemma numeric_column_complete:
  assumes "df \<noteq> []" "list_all complete df" "name \<in> set feature_columns_list"
  shows "numeric_column \<lparr>frame = df, transaction_type_encoded = c\<rparr> name \<noteq> None"
proof -
  obtain r rs where df: "df = r # rs" using assms(1) by (cases df) auto
  then have "complete r" using assms(2) by simp
  then have "name = ''transaction_type_encoded'' \<or> numeric_field name r \<noteq> None"
    using assms(3)
    by (auto simp: feature_columns_list_def numeric_field_def complete_def of_int_cell_def)
  then show ?thesis
    by (auto simp: numeric_column_def df)
qed

lemma check_columns_present:
  "(\<And>name. name \<in> set names \<Longrightarrow> numeric_column dfp name \<noteq> None) \<Longrightarrow>
     check_columns dfp names = Inr ()"
  by (induction names) auto

lemma select_columns_present:
  "(\<And>name. name \<in> set names \<Longrightarrow> numeric_column dfp name \<noteq> None) \<Longrightarrow>
     \<exists>X. select_columns dfp names = Inr X \<and> length X = length names"
  by (induction names) (auto split: option.splits)

lemma select_features_complete:
  assumes "df \<noteq> []" "list_all complete df"
  shows "\<exists>X. select_features \<lparr>frame = df, transaction_type_encoded = c\<rparr> =
           Inr (X, feature_columns_list) \<and> length X = length feature_columns_list"
proof -
  let ?dfp = "\<lparr>frame = df, transaction_type_encoded = c\<rparr>"
  have p: "\<And>name. name \<in> set feature_columns_list \<Longrightarrow> numeric_column ?dfp name \<noteq> None"
    using numeric_column_complete [OF assms] by blast
  have c: "check_columns ?dfp feature_columns_list = Inr ()"
    using p by (rule check_columns_present)
  obtain X where X: "select_columns ?dfp feature_columns_list = Inr X"
      "length X = length feature_columns_list"
    using select_columns_present [of feature_columns_list ?dfp] p by blast
  show ?thesis
    using c X by (simp add: select_features_def fillna_mean_def)
qed

lemma getitem_transaction_type_complete:
  assumes "df \<noteq> []" "list_all complete df"
  shows "getitem_transaction_type df = Inr (map transaction_type df)"
proof -
  obtain r rs where df: "df = r # rs" using assms(1) by (cases df) auto
  then have "transaction_type r \<noteq> None" using assms(2) by (simp add: complete_def)
  then show ?thesis by (simp add: getitem_transaction_type_def df)
qed

lemma preprocess_features_complete:
  assumes "df \<noteq> []" "list_all complete df"
  shows "\<exists>X self'. preprocess_features init df = (Inr (X, feature_columns_list), self') \<and>
           length X = length feature_columns_list"
  using select_features_complete [OF assms] getitem_transaction_type_complete [OF assms]
  by (simp add: preprocess_features_def init_def le_fit_transform_def Let_def)

lemma scaler_fit_transform:
  "\<exists>Xs. scaler_transform (scaler_fit X) X = Inr Xs"
  by (simp add: scaler_transform_def scaler_fit_def)

lemma toy_train_complete:
  assumes "df \<noteq> []" "list_all complete df"
  shows "fst (train toy_sklearn init df) = Inr toy_estimator"
proof -
  obtain X self' where p: "preprocess_features (init :: unit fraud_detection_model) df =
      (Inr (X, feature_columns_list), self')"
    using preprocess_features_complete [OF assms] by blast
  obtain Xs where s: "scaler_transform (scaler_fit X) X = Inr Xs"
    using scaler_fit_transform by blast
  show ?thesis
    by (simp add: train_def p s Let_def if_fit_def if_predict_def if_decision_function_def
        IsolationForest_def toy_sklearn_def toy_estimator_def)
qed

lemma generate_dataset_length:
  assumes "np_in_range np"
  shows "length (fst (generate_dataset np g)) = 10400"
proof -
  have "length (fst (generate_dataset np g)) =
      size (mset (fst (generate_normal_transactions np 10000 g)) +
            mset (fst (generate_fraudulent_transactions np 400
                   (snd (generate_normal_transactions np 10000 g)))))"
    by (metis generate_dataset_mset [OF assms] size_mset)
  then show ?thesis
    by (simp add: generate_normal_length generate_fraudulent_length)
qed

text \<open>
  C2 as it is stated fails: on the generated reference corpus (here with the stand-ins
  for numpy and for the forest, seed 42), whose contamination ratio is 400/10400,
  \<open>train\<close> constructs the forest with the contamination 0.04.
\<close>

theorem contamination_not_corpus_ratio:
  "fst (train toy_sklearn init (fst (generate_dataset toy_np (TransactionDataGenerator toy_np 42 0)))) =
     Inr toy_estimator \<and>
   contamination (params toy_estimator) = 4 / 100 \<and>
   contamination_ratio (fst (generate_dataset toy_np (TransactionDataGenerator toy_np 42 0))) =
     400 / 10400 \<and>
   contamination (params toy_estimator) \<noteq>
     contamination_ratio (fst (generate_dataset toy_np (TransactionDataGenerator toy_np 42 0)))"
proof -
  let ?df = "fst (generate_dataset toy_np (TransactionDataGenerator toy_np 42 0))"
  have "length ?df = 10400" by (rule generate_dataset_length [OF toy_np_in_range])
  then have ne: "?df \<noteq> []" by auto
  have t: "fst (train toy_sklearn init ?df) = Inr toy_estimator"
    using ne generate_dataset_complete [OF toy_np_in_range] by (rule toy_train_complete)
  have r: "contamination_ratio ?df = 400 / 10400"
    by (rule generated_contamination_ratio [OF toy_np_in_range])
  have c: "contamination (params toy_estimator) = 4 / 100"
    by (simp add: toy_estimator_def)
  show ?thesis
    unfolding t r c by simp
qed

text \<open>
  C2, amended: the contamination ratio of the generated corpus is 400/10400; the value
  that \<open>train\<close> passes to the Isolation Forest as its contamination is the constant 0.04,
  for every corpus, and the fitted forest with this parameter is the model's.
\<close>

theorem contamination_passed_is_constant:
  assumes "np_in_range np" and "train sk self df = (Inr est, self')"
  shows "contamination_ratio (fst (generate_dataset np g)) = 400 / 10400 \<and>
         contamination (params est) = 4 / 100 \<and> model self' = Some est"
proof -
  have "contamination (params est) = 4 / 100 \<and> model self' = Some est"
    using assms(2)
    by (auto simp: train_def Let_def if_fit_def IsolationForest_def
        split: prod.splits sum.splits)
  then show ?thesis
    using generated_contamination_ratio [OF assms(1), of g] by simp
qed

theorem contamination_passed_is_constant_witness:
  "np_in_range toy_np \<and>
   train toy_sklearn init toy_corpus = (Inr toy_estimator, toy_trained) \<and>
   contamination_ratio (fst (generate_dataset toy_np 42)) = 400 / 10400 \<and>
   contamination (params toy_estimator) = 4 / 100 \<and> model toy_trained = Some toy_estimator"
  using contamination_passed_is_constant [OF toy_np_in_range toy_train, of 42]
    toy_np_in_range toy_train
  by simp

end
